theory Spec2Isabelle
  imports Complex_Main
begin

section \<open>The JNI bridge of the OSQP solver: com_d3x_osqp_OsqpModel.c\<close>

text \<open>
  The file exports one native method, \<open>Java_com_d3x_osqp_OsqpModel_run\<close>, built from the
  static helpers \<open>d3x_create_csc\<close>, \<open>d3x_create_data\<close>, \<open>d3x_free_data\<close>,
  \<open>d3x_string_match\<close>, \<open>d3x_to_int\<close>, \<open>d3x_assign_setting\<close>, \<open>d3x_create_settings\<close>
  and \<open>d3x_create_workspace\<close>. Each of them is embedded below under its own name.

  The OSQP library (\<open>osqp.h\<close>) and the Java virtual machine behind \<open>JNIEnv\<close> are not part
  of the file. The library is a parameter of the model (record \<open>osqp_lib\<close>); the JNI
  functions the file calls are modelled by what they do to the Java arrays, and every call
  that acquires or releases something is written to a trace of events.
\<close>

subsection \<open>Numbers\<close>

text \<open>
  \<open>jdouble\<close> and \<open>c_float\<close> are IEEE doubles; the file only copies them and rounds them, so
  they are modelled by the real number they denote (NaN and the infinities are outside the
  model). \<open>jlong\<close>, \<open>c_int\<close> and \<open>jint\<close> are signed machine integers, modelled by their
  integer value, with the narrowing to \<open>jint\<close> written out.
\<close>

type_synonym jdouble = real
type_synonym c_float = real
type_synonym jlong = int
type_synonym c_int = int
type_synonym jint = int

text \<open>
  Conversion of a wider integer to the 32-bit \<open>jint\<close> (and \<open>jsize\<close>): reduction modulo
  \<open>2 ^ 32\<close> into the signed range. For a value out of the range C leaves the result to the
  implementation; the compilers of the platforms of the Java virtual machine reduce it so.
\<close>

definition to_jint :: "int \<Rightarrow> jint" where
  "to_jint v = (v + 2 ^ 31) mod 2 ^ 32 - 2 ^ 31"

definition in_jint_range :: "int \<Rightarrow> bool" where
  "in_jint_range v \<longleftrightarrow> - (2 ^ 31) \<le> v \<and> v < 2 ^ 31"

text \<open>The sizes the entry point compares, in bytes.\<close>

record platform =
  sizeof_c_int :: nat
  sizeof_long :: nat
  sizeof_c_float :: nat
  sizeof_double :: nat

text \<open>The values a \<open>c_int\<close> of the platform can hold.\<close>

definition in_c_int_range :: "platform \<Rightarrow> int \<Rightarrow> bool" where
  "in_c_int_range p v \<longleftrightarrow>
     - (2 ^ (8 * sizeof_c_int p - 1)) \<le> v \<and> v < 2 ^ (8 * sizeof_c_int p - 1)"

text \<open>
  The read that the file does not guard and whose result no argument of the call
  determines: \<open>nativeParams[paramIndex]\<close> past the end of \<open>paramValues\<close>, when the caller
  passes fewer values than names.
\<close>

datatype fault = OutOfBoundsRead

text \<open>\<open>round\<close> of \<open>math.h\<close>: to the nearest integer, halfway cases away from zero.\<close>

definition c_round :: "jdouble \<Rightarrow> int" where
  "c_round x = (if 0 \<le> x then \<lfloor>x + 1 / 2\<rfloor> else - \<lfloor>- x + 1 / 2\<rfloor>)"

text \<open>
  \<open>static int d3x_to_int(jdouble value) { return (int) round(value); }\<close>
  The function always returns an \<open>int\<close>, of 32 bits like \<open>jint\<close>. For a rounded value
  outside the range of \<open>int\<close> the C standard does not say which; the conversion
  instruction that the compilers of x86-64 emit for the cast (\<open>cvttsd2si\<close>) then gives
  \<open>INT_MIN\<close>, and this is what the model returns.
\<close>

definition INT_MIN :: int where
  "INT_MIN = - (2 ^ 31)"

definition d3x_to_int :: "jdouble \<Rightarrow> int" where
  "d3x_to_int v = (if in_jint_range (c_round v) then c_round v else INT_MIN)"

subsection \<open>Events\<close>

text \<open>The Java arrays whose elements the file acquires or writes.\<close>

datatype jarray =
    LinObjCoeff | QuadObjRowInd | QuadObjColInd | QuadObjCoeff
  | LinConRowInd | LinConColInd | LinConCoeff | LinConLower | LinConUpper
  | OptPrimal | OptDual | ParamValues

datatype matrix = MatA | MatP

text \<open>The blocks of native memory the file allocates, directly or through the library.\<close>

datatype block =
    DataStruct \<comment> \<open>\<open>c_malloc(sizeof(OSQPData))\<close>\<close>
  | SettingsStruct \<comment> \<open>\<open>c_malloc(sizeof(OSQPSettings))\<close>\<close>
  | TripletShell matrix \<comment> \<open>the result of \<open>csc_matrix\<close>\<close>
  | CompCol matrix \<comment> \<open>the result of \<open>triplet_to_csc\<close>\<close>

datatype event =
    GetArrayElements jarray \<comment> \<open>\<open>Get<Type>ArrayElements\<close>\<close>
  | ReleaseArrayElements jarray \<comment> \<open>\<open>Release<Type>ArrayElements\<close>\<close>
  | GetStringUTFChars string
  | ReleaseStringUTFChars string
  | Alloc block
  | Free block \<comment> \<open>\<open>c_free\<close>\<close>
  | OsqpSetup bool c_int \<comment> \<open>\<open>osqp_setup\<close>: whether it stored a workspace, and its status\<close>
  | OsqpCleanup \<comment> \<open>\<open>osqp_cleanup\<close>\<close>
  | OsqpSolve c_int \<comment> \<open>\<open>osqp_solve\<close> and the status it returned\<close>
  | OsqpOpenLog string
  | OsqpCloseLog
  | SetDoubleArrayRegion jarray bool \<comment> \<open>the array and whether the region was valid\<close>
  | Stderr string \<comment> \<open>\<open>fprintf(stderr, ...)\<close>\<close>

subsection \<open>Settings\<close>

text \<open>The fields of \<open>OSQPSettings\<close> that the file assigns. \<open>polish\<close> and \<open>max_iter\<close> are
  \<open>c_int\<close>, the others \<open>c_float\<close>.\<close>

record OSQPSettings =
  rho :: c_float
  sigma :: c_float
  alpha :: c_float
  polish :: c_int
  max_iter :: c_int
  eps_abs :: c_float
  eps_rel :: c_float
  eps_prim_inf :: c_float
  eps_dual_inf :: c_float

definition newline :: string where
  "newline = [CHR 0x0A]"

text \<open>The text of \<^verbatim>\<open>fprintf(stderr, "Unknown setting parameter: [%s].\n", rawName)\<close>.\<close>

definition unknown_setting_message :: "string \<Rightarrow> string" where
  "unknown_setting_message rawName = ''Unknown setting parameter: ['' @ rawName @ ''].'' @ newline"

text \<open>\<open>d3x_string_match\<close>: \<open>strcmp(str1, str2) == 0\<close>, on strings without a NUL inside
  (the modified UTF-8 of \<open>GetStringUTFChars\<close> has none).\<close>

definition d3x_string_match :: "string \<Rightarrow> string \<Rightarrow> bool" where
  "d3x_string_match str1 str2 \<longleftrightarrow> str1 = str2"

text \<open>
  \<open>d3x_assign_setting\<close>: the chain of comparisons in the order of the source.
  The result is the updated settings and the events of the call. The function has no
  failure of its own (its result is always \<open>Inr\<close>, lemma \<open>assign_total\<close>); the sum is the
  type of the loop that calls it.
\<close>

definition d3x_assign_setting ::
  "string \<Rightarrow> jdouble \<Rightarrow> OSQPSettings \<Rightarrow> fault + (OSQPSettings \<times> event list)" where
  "d3x_assign_setting paramName paramValue settings =
     (let done = (\<lambda>s. Inr (s, [GetStringUTFChars paramName, ReleaseStringUTFChars paramName]))
      in
      if d3x_string_match paramName ''RHO'' then done (settings\<lparr>rho := paramValue\<rparr>)
      else if d3x_string_match paramName ''SIGMA'' then done (settings\<lparr>sigma := paramValue\<rparr>)
      else if d3x_string_match paramName ''ALPHA'' then done (settings\<lparr>alpha := paramValue\<rparr>)
      else if d3x_string_match paramName ''POLISH'' then
        done (settings\<lparr>polish := d3x_to_int paramValue\<rparr>)
      else if d3x_string_match paramName ''MAX_ITER'' then
        done (settings\<lparr>max_iter := d3x_to_int paramValue\<rparr>)
      else if d3x_string_match paramName ''EPS_ABS'' then done (settings\<lparr>eps_abs := paramValue\<rparr>)
      else if d3x_string_match paramName ''EPS_REL'' then done (settings\<lparr>eps_rel := paramValue\<rparr>)
      else if d3x_string_match paramName ''EPS_PRIM_INF'' then done (settings\<lparr>eps_prim_inf := paramValue\<rparr>)
      else if d3x_string_match paramName ''EPS_DUAL_INF'' then done (settings\<lparr>eps_dual_inf := paramValue\<rparr>)
      else Inr (settings,
                [GetStringUTFChars paramName,
                 Stderr (unknown_setting_message paramName),
                 ReleaseStringUTFChars paramName]))"

text \<open>
  The loop of \<open>d3x_create_settings\<close>:
  \<^verbatim>\<open>for (int paramIndex = 0; paramIndex < paramCount; ++paramIndex)\<close>
  with \<open>paramCount\<close> the length of \<open>paramNames\<close>. The value is read from \<open>nativeParams\<close> at
  the same index, whatever the length of \<open>paramValues\<close> is.
\<close>

function settings_loop ::
  "nat \<Rightarrow> string list \<Rightarrow> jdouble list \<Rightarrow> OSQPSettings \<Rightarrow> fault + (OSQPSettings \<times> event list)"
  where
  "settings_loop paramIndex names vals settings =
     (if paramIndex < length names then
        (if paramIndex < length vals then
           (case d3x_assign_setting (names ! paramIndex) (vals ! paramIndex) settings of
              Inl f \<Rightarrow> Inl f
            | Inr (settings', evs) \<Rightarrow>
                (case settings_loop (paramIndex + 1) names vals settings' of
                   Inl f \<Rightarrow> Inl f
                 | Inr (settings'', evs') \<Rightarrow> Inr (settings'', evs @ evs')))
         else Inl OutOfBoundsRead)
      else Inr (settings, []))"
  by pat_completeness auto
termination
  by (relation "measure (\<lambda>(i, names, vals, s). length names - i)") auto

declare settings_loop.simps [simp del]

subsection \<open>The library\<close>

text \<open>
  A matrix as \<open>csc_matrix\<close> receives it in \<open>d3x_create_csc\<close>: dimensions, the number of
  entries and the three arrays (row indices \<open>i\<close>, column indices \<open>p\<close>, coefficients \<open>x\<close>).
\<close>

record csc =
  csc_m :: c_int
  csc_n :: c_int
  csc_nzmax :: c_int
  csc_nz :: c_int
  csc_i :: "jlong list"
  csc_p :: "jlong list"
  csc_x :: "jdouble list"

record OSQPData =
  data_n :: c_int
  data_m :: c_int
  data_q :: "jdouble list"
  data_l :: "jdouble list"
  data_u :: "jdouble list"
  data_A :: csc
  data_P :: csc

text \<open>The parts of the workspace the file reads after \<open>osqp_solve\<close>: the two solution
  vectors (pointers, read by index) and \<open>info->status_val\<close>; and the data and settings the
  library keeps in it.\<close>

record OSQPWorkspace =
  work_data :: OSQPData
  work_settings :: OSQPSettings
  solution_x :: "nat \<Rightarrow> c_float"
  solution_y :: "nat \<Rightarrow> c_float"
  info_status_val :: c_int

text \<open>
  What the file takes from the library: whether the two \<open>c_malloc\<close> calls succeed, the
  default settings, the conversion \<open>triplet_to_csc\<close>, \<open>osqp_setup\<close> (the workspace it
  stores, if any, and its status) and \<open>osqp_solve\<close> (its status and the workspace after
  the call).
\<close>

record osqp_lib =
  c_malloc_data :: bool
  c_malloc_settings :: bool
  osqp_set_default_settings :: OSQPSettings
  triplet_to_csc :: "csc \<Rightarrow> csc"
  osqp_setup :: "OSQPData \<Rightarrow> OSQPSettings \<Rightarrow> OSQPWorkspace option \<times> c_int"
  osqp_solve :: "OSQPWorkspace \<Rightarrow> c_int \<times> OSQPWorkspace"

text \<open>
  \<open>d3x_create_settings\<close>. The result is \<open>None\<close> for the \<open>OSQP_NULL\<close> it returns when
  \<open>c_malloc\<close> fails. The defaults of \<open>osqp_set_default_settings\<close> belong to the library;
  \<open>polish\<close> is set to 1 after them and before the loop.
\<close>

definition d3x_create_settings ::
  "osqp_lib \<Rightarrow> string list \<Rightarrow> jdouble list \<Rightarrow> fault + (OSQPSettings option \<times> event list)"
  where
  "d3x_create_settings lib names vals =
     (if \<not> c_malloc_settings lib then
        Inr (None, [Stderr (''Failed to allocate OSQPSettings structure.'' @ newline)])
      else
        (case settings_loop 0 names vals ((osqp_set_default_settings lib)\<lparr>polish := 1\<rparr>) of
           Inl f \<Rightarrow> Inl f
         | Inr (settings, evs) \<Rightarrow>
             Inr (Some settings,
                  [Alloc SettingsStruct, GetArrayElements ParamValues] @ evs
                  @ [ReleaseArrayElements ParamValues])))"

subsection \<open>Problem data\<close>

text \<open>The arguments of the native method.\<close>

record run_args =
  numVar :: jlong
  numDual :: jlong
  logName :: string
  linObjCoeff :: "jdouble list"
  quadObjRowInd :: "jlong list"
  quadObjColInd :: "jlong list"
  quadObjCoeff :: "jdouble list"
  linConRowInd :: "jlong list"
  linConColInd :: "jlong list"
  linConCoeff :: "jdouble list"
  linConLower :: "jdouble list"
  linConUpper :: "jdouble list"
  optPrimal :: "jdouble list"
  optDual :: "jdouble list"
  paramNames :: "string list"
  paramValues :: "jdouble list"

text \<open>
  \<open>d3x_create_csc\<close>. A Java array is given by its name (for the trace) and its elements;
  \<open>mat\<close> names the matrix being built. \<open>csc_matrix\<close> and \<open>triplet_to_csc\<close> are taken to
  return a block each.
\<close>

definition d3x_create_csc ::
  "osqp_lib \<Rightarrow> matrix \<Rightarrow> jlong \<Rightarrow> jlong \<Rightarrow> jarray \<times> jlong list \<Rightarrow> jarray \<times> jlong list
     \<Rightarrow> jarray \<times> jdouble list \<Rightarrow> csc \<times> event list" where
  "d3x_create_csc lib mat nrow ncol rowind colind coeffs =
     (let nnz = int (length (snd coeffs));
          triplet = \<lparr>csc_m = nrow, csc_n = ncol, csc_nzmax = nnz, csc_nz = nnz,
                     csc_i = snd rowind, csc_p = snd colind, csc_x = snd coeffs\<rparr>;
          compcol = triplet_to_csc lib triplet
      in (compcol,
          [GetArrayElements (fst rowind), GetArrayElements (fst colind),
           GetArrayElements (fst coeffs),
           Alloc (TripletShell mat), Alloc (CompCol mat), Free (TripletShell mat),
           ReleaseArrayElements (fst rowind), ReleaseArrayElements (fst colind),
           ReleaseArrayElements (fst coeffs)]))"

definition d3x_create_data :: "osqp_lib \<Rightarrow> run_args \<Rightarrow> OSQPData option \<times> event list" where
  "d3x_create_data lib a =
     (if \<not> c_malloc_data lib then
        (None, [Stderr (''Failed to allocate OSQPData structure.'' @ newline)])
      else
        (let (cA, evA) = d3x_create_csc lib MatA (numDual a) (numVar a)
                           (LinConRowInd, linConRowInd a) (LinConColInd, linConColInd a)
                           (LinConCoeff, linConCoeff a);
             (cP, evP) = d3x_create_csc lib MatP (numVar a) (numVar a)
                           (QuadObjRowInd, quadObjRowInd a) (QuadObjColInd, quadObjColInd a)
                           (QuadObjCoeff, quadObjCoeff a)
         in (Some \<lparr>data_n = numVar a, data_m = numDual a,
                    data_q = linObjCoeff a, data_l = linConLower a, data_u = linConUpper a,
                    data_A = cA, data_P = cP\<rparr>,
             [Alloc DataStruct, GetArrayElements LinObjCoeff, GetArrayElements LinConLower,
              GetArrayElements LinConUpper] @ evA @ evP)))"

text \<open>\<open>d3x_free_data\<close>: the three releases, then the three \<open>c_free\<close> calls.\<close>

definition d3x_free_data :: "event list" where
  "d3x_free_data =
     [ReleaseArrayElements LinObjCoeff, ReleaseArrayElements LinConLower,
      ReleaseArrayElements LinConUpper,
      Free (CompCol MatA), Free (CompCol MatP), Free DataStruct]"

text \<open>\<open>d3x_create_workspace\<close>: \<open>None\<close> is the \<open>OSQP_NULL\<close> of its two failure branches.\<close>

definition d3x_create_workspace ::
  "osqp_lib \<Rightarrow> OSQPData \<Rightarrow> OSQPSettings \<Rightarrow> OSQPWorkspace option \<times> event list" where
  "d3x_create_workspace lib data settings =
     (case osqp_setup lib data settings of
        (None, status) \<Rightarrow>
          (None, [OsqpSetup False status,
                  Stderr (''Failed to allocate OSQPWorkspace structure.'' @ newline)])
      | (Some work, status) \<Rightarrow>
          if status \<noteq> 0 then
            (None, [OsqpSetup True status, Stderr (''Problm setup failed.'' @ newline),
                    OsqpCleanup])
          else (Some work, [OsqpSetup True status]))"

subsection \<open>The native method\<close>

text \<open>
  \<open>SetDoubleArrayRegion(env, array, start, len, buf)\<close>: copies \<open>len\<close> elements of \<open>buf\<close>
  into the array from \<open>start\<close> on. When the region is not inside the array, nothing is
  copied and an \<open>ArrayIndexOutOfBoundsException\<close> is left pending (\<open>None\<close>).
\<close>

definition set_double_array_region ::
  "jdouble list \<Rightarrow> int \<Rightarrow> int \<Rightarrow> (nat \<Rightarrow> jdouble) \<Rightarrow> jdouble list option" where
  "set_double_array_region arr start len buf =
     (if start < 0 \<or> len < 0 \<or> int (length arr) < start + len then None
      else Some (take (nat start) arr @ map buf [0..<nat len] @ drop (nat (start + len)) arr))"

record run_result =
  ret :: jint
  primalOut :: "jdouble list"
  dualOut :: "jdouble list"
  events :: "event list"

definition SETUP_ERROR :: jlong where
  "SETUP_ERROR = - 1"

text \<open>A return of \<open>SETUP_ERROR\<close>: the output arrays are as the caller passed them.\<close>

definition setup_error :: "run_args \<Rightarrow> event list \<Rightarrow> run_result" where
  "setup_error a evs =
     \<lparr>ret = to_jint SETUP_ERROR, primalOut = optPrimal a, dualOut = optDual a, events = evs\<rparr>"

text \<open>
  The first part of the method, up to the creation of the workspace: either the method
  has returned (\<open>Exit\<close>), or the workspace exists and the solve step is next (\<open>Ready\<close>,
  with the events so far).
\<close>

datatype setup_outcome =
    Exit run_result
  | Ready OSQPWorkspace "event list"

definition run_setup :: "platform \<Rightarrow> osqp_lib \<Rightarrow> run_args \<Rightarrow> fault + setup_outcome" where
  "run_setup p lib a =
     (if sizeof_c_int p \<noteq> sizeof_long p then
        Inr (Exit (setup_error a [Stderr (''OSQP must be compiled with DLONG defined.'' @ newline)]))
      else if sizeof_c_float p \<noteq> sizeof_double p then
        Inr (Exit (setup_error a
               [Stderr (''OSQP must be compiled with DFLOAT undefined.'' @ newline)]))
      else
        (let (data, evD) = d3x_create_data lib a in
         case d3x_create_settings lib (paramNames a) (paramValues a) of
           Inl f \<Rightarrow> Inl f
         | Inr (settings, evS) \<Rightarrow>
             (case (data, settings) of
                (Some data', Some settings') \<Rightarrow>
                  (let evL = (if logName a \<noteq> [] then
                                [GetStringUTFChars (logName a), OsqpOpenLog (logName a),
                                 ReleaseStringUTFChars (logName a)]
                              else []);
                       (workspace, evW) = d3x_create_workspace lib data' settings'
                   in case workspace of
                        None \<Rightarrow> Inr (Exit (setup_error a (evD @ evS @ evL @ evW @ [OsqpCloseLog])))
                      | Some work \<Rightarrow> Inr (Ready work (evD @ evS @ evL @ evW)))
              | _ \<Rightarrow> Inr (Exit (setup_error a (evD @ evS))))))"

text \<open>
  The second part: \<open>osqp_solve\<close>, the copy of the solution when its status is 0, the
  cleanup, and \<open>return (jint) status\<close>. The length argument of \<open>SetDoubleArrayRegion\<close> is a
  \<open>jsize\<close>, to which \<open>numVar\<close> and \<open>numDual\<close> are converted.
\<close>

definition teardown :: "event list" where
  "teardown = [OsqpCleanup, Free SettingsStruct] @ d3x_free_data @ [OsqpCloseLog]"

definition run_solve :: "osqp_lib \<Rightarrow> run_args \<Rightarrow> OSQPWorkspace \<Rightarrow> event list \<Rightarrow> run_result" where
  "run_solve lib a workspace evs =
     (let (status, work) = osqp_solve lib workspace in
      if status = 0 then
        (let rx = set_double_array_region (optPrimal a) 0 (to_jint (numVar a)) (solution_x work);
             ry = set_double_array_region (optDual a) 0 (to_jint (numDual a)) (solution_y work)
         in \<lparr>ret = to_jint (info_status_val work),
             primalOut = (case rx of None \<Rightarrow> optPrimal a | Some arr \<Rightarrow> arr),
             dualOut = (case ry of None \<Rightarrow> optDual a | Some arr \<Rightarrow> arr),
             events = evs @ [OsqpSolve status,
                             SetDoubleArrayRegion OptPrimal (rx \<noteq> None),
                             SetDoubleArrayRegion OptDual (ry \<noteq> None)] @ teardown\<rparr>)
      else
        \<lparr>ret = to_jint status, primalOut = optPrimal a, dualOut = optDual a,
         events = evs @ [OsqpSolve status] @ teardown\<rparr>)"

definition Java_com_d3x_osqp_OsqpModel_run ::
  "platform \<Rightarrow> osqp_lib \<Rightarrow> run_args \<Rightarrow> fault + run_result" where
  "Java_com_d3x_osqp_OsqpModel_run p lib a =
     (case run_setup p lib a of
        Inl f \<Rightarrow> Inl f
      | Inr (Exit r) \<Rightarrow> Inr r
      | Inr (Ready workspace evs) \<Rightarrow> Inr (run_solve lib a workspace evs))"

subsection \<open>Reading the settings record\<close>

text \<open>
  For the statements about \<open>d3x_assign_setting\<close>: the field that a name of the
  \<open>strcmp\<close> chain designates, with its value, and the value the branch of that name stores
  for a given input (\<open>d3x_to_int\<close> of it for \<open>POLISH\<close> and \<open>MAX_ITER\<close>).
\<close>

datatype setting_value = FloatValue c_float | IntValue c_int

definition field_of :: "string \<Rightarrow> OSQPSettings \<Rightarrow> setting_value option" where
  "field_of name s =
     (if name = ''RHO'' then Some (FloatValue (rho s))
      else if name = ''SIGMA'' then Some (FloatValue (sigma s))
      else if name = ''ALPHA'' then Some (FloatValue (alpha s))
      else if name = ''POLISH'' then Some (IntValue (polish s))
      else if name = ''MAX_ITER'' then Some (IntValue (max_iter s))
      else if name = ''EPS_ABS'' then Some (FloatValue (eps_abs s))
      else if name = ''EPS_REL'' then Some (FloatValue (eps_rel s))
      else if name = ''EPS_PRIM_INF'' then Some (FloatValue (eps_prim_inf s))
      else if name = ''EPS_DUAL_INF'' then Some (FloatValue (eps_dual_inf s))
      else None)"

definition stored :: "string \<Rightarrow> jdouble \<Rightarrow> setting_value" where
  "stored name v =
     (if name = ''POLISH'' \<or> name = ''MAX_ITER'' then IntValue (d3x_to_int v) else FloatValue v)"

text \<open>
  The loop of \<open>d3x_create_settings\<close> once more, by recursion on the two arrays from the
  current index on; \<open>settings_loop_fold\<close> below shows that \<open>settings_loop\<close> computes it.
\<close>

fun settings_fold ::
  "string list \<Rightarrow> jdouble list \<Rightarrow> OSQPSettings \<Rightarrow> fault + (OSQPSettings \<times> event list)" where
  "settings_fold [] vals settings = Inr (settings, [])"
| "settings_fold (name # names) [] settings = Inl OutOfBoundsRead"
| "settings_fold (name # names) (v # vals) settings =
     (case d3x_assign_setting name v settings of
        Inl f \<Rightarrow> Inl f
      | Inr (settings', evs) \<Rightarrow>
          (case settings_fold names vals settings' of
             Inl f \<Rightarrow> Inl f
           | Inr (settings'', evs') \<Rightarrow> Inr (settings'', evs @ evs')))"

subsection \<open>Reading the trace\<close>

text \<open>The events of \<open>d3x_assign_setting\<close>.\<close>

fun string_event :: "event \<Rightarrow> bool" where
  "string_event (GetStringUTFChars s) = True"
| "string_event (ReleaseStringUTFChars s) = True"
| "string_event (Stderr s) = True"
| "string_event e = False"

text \<open>The events that occur before the solve step: everything but \<open>osqp_solve\<close>,
  \<open>SetDoubleArrayRegion\<close> and the calls of the final cleanup.\<close>

fun setup_event :: "event \<Rightarrow> bool" where
  "setup_event (GetArrayElements arr) = True"
| "setup_event (ReleaseArrayElements arr) =
     (arr \<notin> {LinObjCoeff, LinConLower, LinConUpper})"
| "setup_event (GetStringUTFChars str) = True"
| "setup_event (ReleaseStringUTFChars str) = True"
| "setup_event (Alloc blk) = True"
| "setup_event (Free blk) = (blk \<in> {TripletShell MatA, TripletShell MatP})"
| "setup_event (OsqpSetup has_work status) = True"
| "setup_event (OsqpOpenLog str) = True"
| "setup_event (Stderr str) = True"
| "setup_event e = False"

text \<open>
  What a call acquires and what it releases. \<open>held rs evs\<close> is what is still held after
  the events \<open>evs\<close>, starting from \<open>rs\<close>; \<open>leaked\<close> is what a whole trace leaves behind.
\<close>

datatype resource = Elements jarray | Chars string | Block block | Workspace

fun acquired :: "event \<Rightarrow> resource option" where
  "acquired (GetArrayElements arr) = Some (Elements arr)"
| "acquired (GetStringUTFChars str) = Some (Chars str)"
| "acquired (Alloc blk) = Some (Block blk)"
| "acquired (OsqpSetup has_work status) = (if has_work then Some Workspace else None)"
| "acquired e = None"

fun released :: "event \<Rightarrow> resource option" where
  "released (ReleaseArrayElements arr) = Some (Elements arr)"
| "released (ReleaseStringUTFChars str) = Some (Chars str)"
| "released (Free blk) = Some (Block blk)"
| "released OsqpCleanup = Some Workspace"
| "released e = None"

fun held :: "resource list \<Rightarrow> event list \<Rightarrow> resource list" where
  "held rs [] = rs"
| "held rs (e # es) =
     held (case released e of
             Some r \<Rightarrow> remove1 r rs
           | None \<Rightarrow> (case acquired e of Some r \<Rightarrow> rs @ [r] | None \<Rightarrow> rs)) es"

definition leaked :: "event list \<Rightarrow> resource list" where
  "leaked evs = held [] evs"

text \<open>The status values that \<open>osqp_solve\<close> returned in a trace.\<close>

fun solve_codes :: "event list \<Rightarrow> c_int list" where
  "solve_codes [] = []"
| "solve_codes (OsqpSolve status # es) = status # solve_codes es"
| "solve_codes (e # es) = solve_codes es"

subsection \<open>Instances\<close>

text \<open>
  A platform with 8-byte \<open>c_int\<close>, \<open>long\<close>, \<open>c_float\<close> and \<open>double\<close> (LP64, OSQP compiled
  with \<open>DLONG\<close> and without \<open>DFLOAT\<close>), and the default settings and two status values as
  the headers of the OSQP library give them.
\<close>

definition lp64 :: platform where
  "lp64 = \<lparr>sizeof_c_int = 8, sizeof_long = 8, sizeof_c_float = 8, sizeof_double = 8\<rparr>"

definition osqp_defaults :: OSQPSettings where
  "osqp_defaults =
     \<lparr>rho = 1 / 10, sigma = 1 / 1000000, alpha = 16 / 10, polish = 0, max_iter = 4000,
      eps_abs = 1 / 1000, eps_rel = 1 / 1000, eps_prim_inf = 1 / 10000,
      eps_dual_inf = 1 / 10000\<rparr>"

definition OSQP_SOLVED :: c_int where
  "OSQP_SOLVED = 1"

definition OSQP_PRIMAL_INFEASIBLE :: c_int where
  "OSQP_PRIMAL_INFEASIBLE = - 3"

text \<open>
  A library for concrete runs. Its \<open>osqp_setup\<close> stores the data and the settings in a
  workspace with zero solution vectors; its \<open>osqp_solve\<close> returns 0 and reports
  \<open>OSQP_PRIMAL_INFEASIBLE\<close> when a lower bound exceeds its upper bound, \<open>OSQP_SOLVED\<close>
  otherwise.
\<close>

definition sample_setup :: "OSQPData \<Rightarrow> OSQPSettings \<Rightarrow> OSQPWorkspace option \<times> c_int" where
  "sample_setup data settings =
     (Some \<lparr>work_data = data, work_settings = settings,
            solution_x = (\<lambda>i. 0), solution_y = (\<lambda>i. 0), info_status_val = 0\<rparr>, 0)"

definition sample_solve :: "OSQPWorkspace \<Rightarrow> c_int \<times> OSQPWorkspace" where
  "sample_solve work =
     (0, work\<lparr>info_status_val :=
                 (if list_ex (\<lambda>(lo, up). up < lo)
                       (zip (data_l (work_data work)) (data_u (work_data work)))
                  then OSQP_PRIMAL_INFEASIBLE else OSQP_SOLVED)\<rparr>)"

definition sample_lib :: osqp_lib where
  "sample_lib =
     \<lparr>c_malloc_data = True, c_malloc_settings = True,
      osqp_set_default_settings = osqp_defaults,
      triplet_to_csc = (\<lambda>t. t),
      osqp_setup = sample_setup,
      osqp_solve = sample_solve\<rparr>"

text \<open>
  The same library with an \<open>osqp_solve\<close> that returns a given status, with a given
  \<open>info->status_val\<close> and the solution \<open>x = (1, 2, ...)\<close>, \<open>y = (-1, -2, ...)\<close>; and
  with an \<open>osqp_setup\<close> that stores no workspace and returns status 1.
\<close>

definition fixed_solve :: "c_int \<Rightarrow> c_int \<Rightarrow> OSQPWorkspace \<Rightarrow> c_int \<times> OSQPWorkspace" where
  "fixed_solve exitflag status_val work =
     (exitflag, work\<lparr>solution_x := (\<lambda>i. 1 + real i), solution_y := (\<lambda>i. - 1 - real i),
                     info_status_val := status_val\<rparr>)"

definition fixed_lib :: "c_int \<Rightarrow> c_int \<Rightarrow> osqp_lib" where
  "fixed_lib exitflag status_val = sample_lib\<lparr>osqp_solve := fixed_solve exitflag status_val\<rparr>"

definition rejecting_setup :: "OSQPData \<Rightarrow> OSQPSettings \<Rightarrow> OSQPWorkspace option \<times> c_int" where
  "rejecting_setup data settings = (None, 1)"

definition rejecting_lib :: osqp_lib where
  "rejecting_lib = sample_lib\<lparr>osqp_setup := rejecting_setup\<rparr>"

text \<open>And with an \<open>osqp_setup\<close> that stores a workspace and then fails with status 4.\<close>

definition failed_init_setup ::
  "OSQPData \<Rightarrow> OSQPSettings \<Rightarrow> OSQPWorkspace option \<times> c_int" where
  "failed_init_setup data settings = (fst (sample_setup data settings), 4)"

definition failed_init_lib :: osqp_lib where
  "failed_init_lib = sample_lib\<lparr>osqp_setup := failed_init_setup\<rparr>"

text \<open>
  A problem with one variable and one constraint, \<open>0 \<le> x \<le> 10\<close>, and the same problem
  with the bounds \<open>5\<close> and \<open>1\<close>. The output arrays hold 7 and 8 before the call.
\<close>

definition example_args :: run_args where
  "example_args =
     \<lparr>numVar = 1, numDual = 1, logName = ''osqp.log'',
      linObjCoeff = [1], quadObjRowInd = [], quadObjColInd = [], quadObjCoeff = [],
      linConRowInd = [0], linConColInd = [0], linConCoeff = [1],
      linConLower = [0], linConUpper = [10],
      optPrimal = [7], optDual = [8],
      paramNames = [''MAX_ITER''], paramValues = [100]\<rparr>"

definition infeasible_args :: run_args where
  "infeasible_args = example_args\<lparr>linConLower := [5], linConUpper := [1]\<rparr>"

text \<open>
  A problem with one variable and the two constraints \<open>1 \<le> x \<le> 10\<close> and \<open>-10 \<le> x \<le> 0\<close>,
  which no \<open>x\<close> satisfies. The output arrays hold 7 and 8, 9 before the call.
\<close>

definition contradictory_args :: run_args where
  "contradictory_args =
     example_args\<lparr>numDual := 2, linConRowInd := [0, 1], linConColInd := [0, 0],
                   linConCoeff := [1, 1], linConLower := [1, - 10], linConUpper := [10, 0],
                   optDual := [8, 9]\<rparr>"

section \<open>Properties\<close>

subsection \<open>The settings\<close>

lemma nine_cases:
  obtains "n = a" | "n = b" | "n = c" | "n = d" | "n = e" | "n = f" | "n = g"
    | "n = h" | "n = k" | "n \<notin> {a, b, c, d, e, f, g, h, k}"
  by blast

lemmas name_cases =
  nine_cases [where a = "''RHO''" and b = "''SIGMA''" and c = "''ALPHA''" and d = "''POLISH''"
    and e = "''MAX_ITER''" and f = "''EPS_ABS''" and g = "''EPS_REL''"
    and h = "''EPS_PRIM_INF''" and k = "''EPS_DUAL_INF''"]

lemma assign_unknown:
  assumes "n \<notin> {''RHO'', ''SIGMA'', ''ALPHA'', ''POLISH'', ''MAX_ITER'', ''EPS_ABS'', ''EPS_REL'',
             ''EPS_PRIM_INF'', ''EPS_DUAL_INF''}"
  shows "d3x_assign_setting n v s =
           Inr (s, [GetStringUTFChars n,
                    Stderr (unknown_setting_message n),
                    ReleaseStringUTFChars n])"
  using assms by (simp add: d3x_assign_setting_def d3x_string_match_def)

lemma field_of_unknown:
  assumes "n \<notin> {''RHO'', ''SIGMA'', ''ALPHA'', ''POLISH'', ''MAX_ITER'', ''EPS_ABS'', ''EPS_REL'',
             ''EPS_PRIM_INF'', ''EPS_DUAL_INF''}"
  shows "field_of n s = None"
  using assms by (simp add: field_of_def)

lemma field_of_None_iff:
  "field_of n s = None \<longleftrightarrow>
     n \<notin> {''RHO'', ''SIGMA'', ''ALPHA'', ''POLISH'', ''MAX_ITER'', ''EPS_ABS'', ''EPS_REL'',
          ''EPS_PRIM_INF'', ''EPS_DUAL_INF''}"
  by (simp add: field_of_def)

lemma assign_known:
  "d3x_assign_setting ''RHO'' v s =
     Inr (s\<lparr>rho := v\<rparr>, [GetStringUTFChars ''RHO'', ReleaseStringUTFChars ''RHO''])"
  "d3x_assign_setting ''SIGMA'' v s =
     Inr (s\<lparr>sigma := v\<rparr>, [GetStringUTFChars ''SIGMA'', ReleaseStringUTFChars ''SIGMA''])"
  "d3x_assign_setting ''ALPHA'' v s =
     Inr (s\<lparr>alpha := v\<rparr>, [GetStringUTFChars ''ALPHA'', ReleaseStringUTFChars ''ALPHA''])"
  "d3x_assign_setting ''POLISH'' v s =
     Inr (s\<lparr>polish := d3x_to_int v\<rparr>,
          [GetStringUTFChars ''POLISH'', ReleaseStringUTFChars ''POLISH''])"
  "d3x_assign_setting ''MAX_ITER'' v s =
     Inr (s\<lparr>max_iter := d3x_to_int v\<rparr>,
          [GetStringUTFChars ''MAX_ITER'', ReleaseStringUTFChars ''MAX_ITER''])"
  "d3x_assign_setting ''EPS_ABS'' v s =
     Inr (s\<lparr>eps_abs := v\<rparr>, [GetStringUTFChars ''EPS_ABS'', ReleaseStringUTFChars ''EPS_ABS''])"
  "d3x_assign_setting ''EPS_REL'' v s =
     Inr (s\<lparr>eps_rel := v\<rparr>, [GetStringUTFChars ''EPS_REL'', ReleaseStringUTFChars ''EPS_REL''])"
  "d3x_assign_setting ''EPS_PRIM_INF'' v s =
     Inr (s\<lparr>eps_prim_inf := v\<rparr>, [GetStringUTFChars ''EPS_PRIM_INF'', ReleaseStringUTFChars ''EPS_PRIM_INF''])"
  "d3x_assign_setting ''EPS_DUAL_INF'' v s =
     Inr (s\<lparr>eps_dual_inf := v\<rparr>, [GetStringUTFChars ''EPS_DUAL_INF'', ReleaseStringUTFChars ''EPS_DUAL_INF''])"
  by (simp_all add: d3x_assign_setting_def d3x_string_match_def)

lemma field_of_update:
  "field_of name (s\<lparr>rho := x\<rparr>) =
     (if name = ''RHO'' then Some (FloatValue x) else field_of name s)"
  "field_of name (s\<lparr>sigma := x\<rparr>) =
     (if name = ''SIGMA'' then Some (FloatValue x) else field_of name s)"
  "field_of name (s\<lparr>alpha := x\<rparr>) =
     (if name = ''ALPHA'' then Some (FloatValue x) else field_of name s)"
  "field_of name (s\<lparr>polish := i\<rparr>) =
     (if name = ''POLISH'' then Some (IntValue i) else field_of name s)"
  "field_of name (s\<lparr>max_iter := i\<rparr>) =
     (if name = ''MAX_ITER'' then Some (IntValue i) else field_of name s)"
  "field_of name (s\<lparr>eps_abs := x\<rparr>) =
     (if name = ''EPS_ABS'' then Some (FloatValue x) else field_of name s)"
  "field_of name (s\<lparr>eps_rel := x\<rparr>) =
     (if name = ''EPS_REL'' then Some (FloatValue x) else field_of name s)"
  "field_of name (s\<lparr>eps_prim_inf := x\<rparr>) =
     (if name = ''EPS_PRIM_INF'' then Some (FloatValue x) else field_of name s)"
  "field_of name (s\<lparr>eps_dual_inf := x\<rparr>) =
     (if name = ''EPS_DUAL_INF'' then Some (FloatValue x) else field_of name s)"
  by (simp_all add: field_of_def)

lemma assign_field:
  assumes a: "d3x_assign_setting n v s = Inr (s', ev)"
  shows "field_of name s' =
           (if name = n \<and> field_of name s \<noteq> None then Some (stored n v) else field_of name s)"
proof (cases n rule: name_cases)
  case 1
  with a have "s' = s\<lparr>rho := v\<rparr>" by (simp add: assign_known)
  with 1 show ?thesis by (simp add: field_of_update stored_def field_of_None_iff)
next
  case 2
  with a have "s' = s\<lparr>sigma := v\<rparr>" by (simp add: assign_known)
  with 2 show ?thesis by (simp add: field_of_update stored_def field_of_None_iff)
next
  case 3
  with a have "s' = s\<lparr>alpha := v\<rparr>" by (simp add: assign_known)
  with 3 show ?thesis by (simp add: field_of_update stored_def field_of_None_iff)
next
  case 4
  with a have "s' = s\<lparr>polish := d3x_to_int v\<rparr>" by (simp add: assign_known)
  with 4 show ?thesis by (simp add: field_of_update stored_def field_of_None_iff)
next
  case 5
  with a have "s' = s\<lparr>max_iter := d3x_to_int v\<rparr>" by (simp add: assign_known)
  with 5 show ?thesis by (simp add: field_of_update stored_def field_of_None_iff)
next
  case 6
  with a have "s' = s\<lparr>eps_abs := v\<rparr>" by (simp add: assign_known)
  with 6 show ?thesis by (simp add: field_of_update stored_def field_of_None_iff)
next
  case 7
  with a have "s' = s\<lparr>eps_rel := v\<rparr>" by (simp add: assign_known)
  with 7 show ?thesis by (simp add: field_of_update stored_def field_of_None_iff)
next
  case 8
  with a have "s' = s\<lparr>eps_prim_inf := v\<rparr>" by (simp add: assign_known)
  with 8 show ?thesis by (simp add: field_of_update stored_def field_of_None_iff)
next
  case 9
  with a have "s' = s\<lparr>eps_dual_inf := v\<rparr>" by (simp add: assign_known)
  with 9 show ?thesis by (simp add: field_of_update stored_def field_of_None_iff)
next
  case 10
  with a have "s' = s" by (simp add: assign_unknown)
  with 10 show ?thesis by (auto simp: field_of_unknown)
qed

lemma assign_total: "\<exists>s' ev. d3x_assign_setting n v s = Inr (s', ev)"
proof (cases n rule: name_cases)
  case 10
  then show ?thesis by (simp add: assign_unknown)
qed (simp_all add: assign_known)

lemma assign_other:
  assumes "d3x_assign_setting n v s = Inr (s', ev)" and "n \<noteq> name"
  shows "field_of name s' = field_of name s"
  using assign_field [OF assms(1), of name] assms(2) by simp

lemma assign_same:
  assumes "d3x_assign_setting name v s = Inr (s', ev)" and "field_of name s \<noteq> None"
  shows "field_of name s' = Some (stored name v)"
  using assign_field [OF assms(1), of name] assms(2) by simp

lemma loop_keeps:
  "settings_loop i names vals s = Inr (s', ev) \<Longrightarrow>
   (\<forall>j. i \<le> j \<and> j < length names \<longrightarrow> names ! j \<noteq> name) \<Longrightarrow>
   field_of name s' = field_of name s"
proof (induction i names vals s arbitrary: s' ev rule: settings_loop.induct)
  case (1 i names vals s)
  show ?case
  proof (cases "i < length names")
    case False
    with "1.prems"(1) show ?thesis by (simp add: settings_loop.simps [of i])
  next
    case True
    with "1.prems"(1) have iv: "i < length vals"
      by (simp add: settings_loop.simps [of i] split: if_splits)
    from "1.prems"(1) True iv obtain s1 e1 e2 where
      a: "d3x_assign_setting (names ! i) (vals ! i) s = Inr (s1, e1)" and
      l: "settings_loop (i + 1) names vals s1 = Inr (s', e2)"
      by (auto simp: settings_loop.simps [of i] split: sum.splits)
    from "1.prems"(2) True have ne: "names ! i \<noteq> name" by simp
    have "field_of name s' = field_of name s1"
      using "1.IH" [OF True iv a refl l] "1.prems"(2) by simp
    also have "\<dots> = field_of name s" using assign_other [OF a ne] .
    finally show ?thesis .
  qed
qed

lemma loop_last:
  "settings_loop i names vals s = Inr (s', ev) \<Longrightarrow> i \<le> k \<Longrightarrow> k < length names \<Longrightarrow>
   names ! k = name \<Longrightarrow> field_of name s \<noteq> None \<Longrightarrow>
   (\<forall>j. k < j \<and> j < length names \<longrightarrow> names ! j \<noteq> name) \<Longrightarrow>
   field_of name s' = Some (stored name (vals ! k))"
proof (induction i names vals s arbitrary: s' ev rule: settings_loop.induct)
  case (1 i names vals s)
  from "1.prems"(2,3) have True: "i < length names" by simp
  with "1.prems"(1) have iv: "i < length vals"
    by (simp add: settings_loop.simps [of i] split: if_splits)
  from "1.prems"(1) True iv obtain s1 e1 e2 where
    a: "d3x_assign_setting (names ! i) (vals ! i) s = Inr (s1, e1)" and
    l: "settings_loop (i + 1) names vals s1 = Inr (s', e2)"
    by (auto simp: settings_loop.simps [of i] split: sum.splits)
  show ?case
  proof (cases "i = k")
    case True
    with a "1.prems"(4) have a': "d3x_assign_setting name (vals ! k) s = Inr (s1, e1)" by simp
    have "field_of name s' = field_of name s1"
      using loop_keeps [OF l, of name] "1.prems"(6) True by simp
    also have "\<dots> = Some (stored name (vals ! k))"
      using assign_same [OF a' "1.prems"(5)] .
    finally show ?thesis .
  next
    case False
    with "1.prems"(2) have le: "i + 1 \<le> k" by simp
    have known: "field_of name s1 \<noteq> None"
      using "1.prems"(5) unfolding field_of_None_iff .
    show ?thesis
      using "1.IH" [OF \<open>i < length names\<close> iv a refl l le "1.prems"(3,4) known "1.prems"(6)] .
  qed
qed

lemma settings_loop_fold:
  "settings_loop i names vals s = settings_fold (drop i names) (drop i vals) s"
proof (induction i names vals s rule: settings_loop.induct)
  case (1 i names vals s)
  show ?case
  proof (cases "i < length names")
    case False
    then show ?thesis by (simp add: settings_loop.simps [of i])
  next
    case n: True
    then have dn: "drop i names = names ! i # drop (i + 1) names"
      by (simp add: Cons_nth_drop_Suc)
    show ?thesis
    proof (cases "i < length vals")
      case False
      with n dn show ?thesis by (simp add: settings_loop.simps [of i])
    next
      case v: True
      then have dv: "drop i vals = vals ! i # drop (i + 1) vals"
        by (simp add: Cons_nth_drop_Suc)
      show ?thesis
      proof (cases "d3x_assign_setting (names ! i) (vals ! i) s")
        case (Inl f)
        with n v show ?thesis by (simp add: settings_loop.simps [of i] dn dv)
      next
        case (Inr x)
        obtain s1 e1 where x: "x = (s1, e1)" by (cases x)
        have "settings_loop (i + 1) names vals s1 =
                settings_fold (drop (i + 1) names) (drop (i + 1) vals) s1"
          using "1.IH" [OF n v Inr x [symmetric]] .
        with n v Inr x show ?thesis by (simp add: settings_loop.simps [of i] dn dv)
      qed
    qed
  qed
qed

lemma settings_fold_append:
  "length ns1 = length vs1 \<Longrightarrow>
   settings_fold (ns1 @ ns2) (vs1 @ vs2) s =
     (case settings_fold ns1 vs1 s of
        Inl f \<Rightarrow> Inl f
      | Inr (s1, e1) \<Rightarrow>
          (case settings_fold ns2 vs2 s1 of
             Inl f \<Rightarrow> Inl f
           | Inr (s2, e2) \<Rightarrow> Inr (s2, e1 @ e2)))"
proof (induction ns1 arbitrary: vs1 s)
  case Nil
  then show ?case by (simp split: sum.splits)
next
  case (Cons n ns1)
  then obtain v vs1' where vs1: "vs1 = v # vs1'" and len: "length ns1 = length vs1'"
    by (cases vs1) auto
  show ?case
    by (simp add: vs1 Cons.IH [OF len] split: sum.splits prod.splits)
qed

lemma settings_fold_skip:
  assumes u: "n \<notin> {''RHO'', ''SIGMA'', ''ALPHA'', ''POLISH'', ''MAX_ITER'', ''EPS_ABS'', ''EPS_REL'',
             ''EPS_PRIM_INF'', ''EPS_DUAL_INF''}"
    and len: "length ns1 = length vs1"
  shows "map_sum id fst (settings_fold (ns1 @ n # ns2) (vs1 @ v # vs2) s) =
         map_sum id fst (settings_fold (ns1 @ ns2) (vs1 @ vs2) s)"
  by (simp add: settings_fold_append [OF len] assign_unknown [OF u]
      split: sum.splits prod.splits)

lemma settings_fold_diag:
  assumes u: "n \<notin> {''RHO'', ''SIGMA'', ''ALPHA'', ''POLISH'', ''MAX_ITER'', ''EPS_ABS'', ''EPS_REL'',
             ''EPS_PRIM_INF'', ''EPS_DUAL_INF''}"
    and len: "length ns1 = length vs1"
    and r: "settings_fold (ns1 @ n # ns2) (vs1 @ v # vs2) s = Inr (s', evs)"
  shows "Stderr (unknown_setting_message n) \<in> set evs"
  using r
  by (auto simp: settings_fold_append [OF len] assign_unknown [OF u]
      split: sum.splits prod.splits)

lemma assign_events:
  assumes a: "d3x_assign_setting n v s = Inr (s', ev)"
  shows "\<forall>e\<in>set ev. string_event e"
proof (cases n rule: name_cases)
  case 10 with a show ?thesis by (auto simp: assign_unknown)
qed (use a in \<open>auto simp: assign_known split: sum.splits\<close>)

lemma fold_events:
  "settings_fold ns vs s = Inr (s', ev) \<Longrightarrow> \<forall>e\<in>set ev. string_event e"
proof (induction ns vs s arbitrary: s' ev rule: settings_fold.induct)
  case (3 name names v vals settings)
  from "3.prems" obtain s1 e1 e2 where
    a: "d3x_assign_setting name v settings = Inr (s1, e1)" and
    f: "settings_fold names vals s1 = Inr (s', e2)" and ev: "ev = e1 @ e2"
    by (auto split: sum.splits)
  from assign_events [OF a] "3.IH" [OF a refl f] ev show ?case by auto
qed auto

lemma fold_length:
  "settings_fold ns vs s = Inr r \<Longrightarrow> length ns \<le> length vs"
  by (induction ns vs s arbitrary: r rule: settings_fold.induct) (auto split: sum.splits)

lemma fold_total:
  "length ns \<le> length vs \<Longrightarrow> \<exists>s' ev. settings_fold ns vs s = Inr (s', ev)"
proof (induction ns vs s rule: settings_fold.induct)
  case (3 name names v vals settings)
  from assign_total [of name v settings] obtain s1 e1 where
    a: "d3x_assign_setting name v settings = Inr (s1, e1)" by blast
  from "3.prems" have "length names \<le> length vals" by simp
  from "3.IH" [OF a refl this] obtain s2 e2 where
    "settings_fold names vals s1 = Inr (s2, e2)" by blast
  with a show ?case by simp
qed simp_all

lemma create_settings_total:
  assumes "c_malloc_settings lib" and "length names \<le> length vals"
  shows "\<exists>s evs. d3x_create_settings lib names vals = Inr (Some s, evs)"
proof -
  from fold_total [OF assms(2)] obtain s ev where
    "settings_fold names vals ((osqp_set_default_settings lib)\<lparr>polish := 1\<rparr>) = Inr (s, ev)"
    by blast
  with assms(1) show ?thesis by (simp add: d3x_create_settings_def settings_loop_fold)
qed

lemma create_settings_Some:
  assumes "d3x_create_settings lib names vals = Inr (Some s, evs)"
  obtains ev where
    "settings_loop 0 names vals ((osqp_set_default_settings lib)\<lparr>polish := 1\<rparr>) = Inr (s, ev)"
    and "evs = [Alloc SettingsStruct, GetArrayElements ParamValues] @ ev
               @ [ReleaseArrayElements ParamValues]"
  using assms
  by (auto simp: d3x_create_settings_def split: if_splits sum.splits)

lemma field_of_literal:
  "field_of ''RHO'' s = Some (FloatValue (rho s))"
  "field_of ''SIGMA'' s = Some (FloatValue (sigma s))"
  "field_of ''ALPHA'' s = Some (FloatValue (alpha s))"
  "field_of ''POLISH'' s = Some (IntValue (polish s))"
  "field_of ''MAX_ITER'' s = Some (IntValue (max_iter s))"
  "field_of ''EPS_ABS'' s = Some (FloatValue (eps_abs s))"
  "field_of ''EPS_REL'' s = Some (FloatValue (eps_rel s))"
  "field_of ''EPS_PRIM_INF'' s = Some (FloatValue (eps_prim_inf s))"
  "field_of ''EPS_DUAL_INF'' s = Some (FloatValue (eps_dual_inf s))"
  by (simp_all add: field_of_def)

lemma stored_literal:
  "stored ''RHO'' v = FloatValue v"
  "stored ''SIGMA'' v = FloatValue v"
  "stored ''ALPHA'' v = FloatValue v"
  "stored ''POLISH'' v = IntValue (d3x_to_int v)"
  "stored ''MAX_ITER'' v = IntValue (d3x_to_int v)"
  "stored ''EPS_ABS'' v = FloatValue v"
  "stored ''EPS_REL'' v = FloatValue v"
  "stored ''EPS_PRIM_INF'' v = FloatValue v"
  "stored ''EPS_DUAL_INF'' v = FloatValue v"
  by (simp_all add: stored_def)

lemma create_settings_last:
  assumes c: "d3x_create_settings lib names vals = Inr (Some s, evs)"
    and k: "k < length names" and n: "names ! k = name"
    and known: "field_of name s \<noteq> None"
    and last: "\<forall>j. k < j \<and> j < length names \<longrightarrow> names ! j \<noteq> name"
  shows "k < length vals \<and> field_of name s = Some (stored name (vals ! k))"
proof -
  from c obtain ev where
    l: "settings_loop 0 names vals ((osqp_set_default_settings lib)\<lparr>polish := 1\<rparr>) = Inr (s, ev)"
    by (rule create_settings_Some)
  from l have "length names \<le> length vals"
    using fold_length [of names vals _ "(s, ev)"] by (simp add: settings_loop_fold)
  with k have kv: "k < length vals" by simp
  from known have known0: "field_of name ((osqp_set_default_settings lib)\<lparr>polish := 1\<rparr>) \<noteq> None"
    unfolding field_of_None_iff .
  from loop_last [OF l _ k n known0 last] kv show ?thesis by simp
qed

lemma create_settings_untouched:
  assumes c: "d3x_create_settings lib names vals = Inr (Some s, evs)"
    and no: "name \<notin> set names"
  shows "field_of name s = field_of name ((osqp_set_default_settings lib)\<lparr>polish := 1\<rparr>)"
proof -
  from c obtain ev where
    l: "settings_loop 0 names vals ((osqp_set_default_settings lib)\<lparr>polish := 1\<rparr>) = Inr (s, ev)"
    by (rule create_settings_Some)
  from no have "\<forall>j. 0 \<le> j \<and> j < length names \<longrightarrow> names ! j \<noteq> name" by auto
  from loop_keeps [OF l this] show ?thesis .
qed

subsection \<open>The native method\<close>

lemmas run_defs =
  Java_com_d3x_osqp_OsqpModel_run_def run_setup_def run_solve_def setup_error_def
  d3x_create_data_def d3x_create_csc_def d3x_create_settings_def d3x_create_workspace_def
  d3x_free_data_def teardown_def SETUP_ERROR_def set_double_array_region_def
  settings_loop_fold assign_known d3x_to_int_def INT_MIN_def c_round_def in_jint_range_def
  to_jint_def

lemmas example_defs =
  lp64_def sample_lib_def sample_setup_def sample_solve_def fixed_lib_def fixed_solve_def
  rejecting_lib_def rejecting_setup_def failed_init_lib_def failed_init_setup_def
  example_args_def infeasible_args_def
  contradictory_args_def osqp_defaults_def
  OSQP_SOLVED_def OSQP_PRIMAL_INFEASIBLE_def

lemma to_jint_id: "in_jint_range v \<Longrightarrow> to_jint v = v"
  by (simp add: to_jint_def in_jint_range_def)

lemma region_ok:
  assumes "0 \<le> n" and "n \<le> int (length arr)" and "in_jint_range n"
  shows "set_double_array_region arr 0 (to_jint n) buf =
           Some (map buf [0..<nat n] @ drop (nat n) arr)"
  using assms by (simp add: set_double_array_region_def to_jint_id)

lemma run_ready:
  "run_setup p lib a = Inr (Ready work evs) \<Longrightarrow>
   Java_com_d3x_osqp_OsqpModel_run p lib a = Inr (run_solve lib a work evs)"
  by (simp add: Java_com_d3x_osqp_OsqpModel_run_def)

lemma run_solve_nonzero:
  assumes "osqp_solve lib work = (status, work')" and "status \<noteq> 0"
  shows "run_solve lib a work evs =
           \<lparr>ret = to_jint status, primalOut = optPrimal a, dualOut = optDual a,
            events = evs @ [OsqpSolve status] @ teardown\<rparr>"
  using assms by (simp add: run_solve_def)

lemma run_solve_zero:
  assumes "osqp_solve lib work = (0, work')"
  shows "ret (run_solve lib a work evs) = to_jint (info_status_val work')"
    and "primalOut (run_solve lib a work evs) =
           (case set_double_array_region (optPrimal a) 0 (to_jint (numVar a)) (solution_x work') of
              None \<Rightarrow> optPrimal a | Some arr \<Rightarrow> arr)"
    and "dualOut (run_solve lib a work evs) =
           (case set_double_array_region (optDual a) 0 (to_jint (numDual a)) (solution_y work') of
              None \<Rightarrow> optDual a | Some arr \<Rightarrow> arr)"
    and "\<exists>b1 b2. events (run_solve lib a work evs) =
           evs @ [OsqpSolve 0, SetDoubleArrayRegion OptPrimal b1,
                  SetDoubleArrayRegion OptDual b2] @ teardown"
  using assms by (simp_all add: run_solve_def Let_def)

lemma create_data_events:
  "d3x_create_data lib a = (d, evs) \<Longrightarrow> \<forall>e\<in>set evs. setup_event e"
  by (auto simp: d3x_create_data_def d3x_create_csc_def Let_def split: if_splits)

lemma string_event_setup: "string_event e \<Longrightarrow> setup_event e"
  by (cases e) auto

lemma create_settings_events:
  assumes "d3x_create_settings lib names vals = Inr (s, evs)"
  shows "\<forall>e\<in>set evs. setup_event e"
proof (cases "c_malloc_settings lib")
  case False
  with assms show ?thesis by (auto simp: d3x_create_settings_def)
next
  case True
  with assms obtain s' ev where
    f: "settings_fold names vals ((osqp_set_default_settings lib)\<lparr>polish := 1\<rparr>) = Inr (s', ev)"
    and evs: "evs = [Alloc SettingsStruct, GetArrayElements ParamValues] @ ev
                   @ [ReleaseArrayElements ParamValues]"
    by (auto simp: d3x_create_settings_def settings_loop_fold split: sum.splits)
  from fold_events [OF f] have "\<forall>e\<in>set ev. setup_event e"
    by (auto intro: string_event_setup)
  with evs show ?thesis by auto
qed

lemma create_workspace_events:
  "d3x_create_workspace lib d s = (Some work, evs) \<Longrightarrow> \<forall>e\<in>set evs. setup_event e"
  "d3x_create_workspace lib d s = (None, evs) \<Longrightarrow>
     \<forall>e\<in>set evs. setup_event e \<or> e = OsqpCleanup"
  by (auto simp: d3x_create_workspace_def split: prod.splits option.splits if_splits)

lemma run_setup_cases:
  assumes "run_setup p lib a = Inr out"
  obtains (width) msg where "out = Exit (setup_error a [Stderr msg])"
  | (null) d evD s evS where "d3x_create_data lib a = (d, evD)"
      and "d3x_create_settings lib (paramNames a) (paramValues a) = Inr (s, evS)"
      and "out = Exit (setup_error a (evD @ evS))"
  | (work) d evD s evS evL evW where "d3x_create_data lib a = (Some d, evD)"
      and "d3x_create_settings lib (paramNames a) (paramValues a) = Inr (Some s, evS)"
      and "\<forall>e\<in>set evL. setup_event e"
      and "d3x_create_workspace lib d s = (None, evW)"
      and "out = Exit (setup_error a (evD @ evS @ evL @ evW @ [OsqpCloseLog]))"
  | (ready) d evD s evS evL evW work where "d3x_create_data lib a = (Some d, evD)"
      and "d3x_create_settings lib (paramNames a) (paramValues a) = Inr (Some s, evS)"
      and "\<forall>e\<in>set evL. setup_event e"
      and "d3x_create_workspace lib d s = (Some work, evW)"
      and "out = Ready work (evD @ evS @ evL @ evW)"
proof (cases "sizeof_c_int p \<noteq> sizeof_long p \<or> sizeof_c_float p \<noteq> sizeof_double p")
  case True
  with assms width show ?thesis by (auto simp: run_setup_def split: if_splits)
next
  case False
  obtain d evD where D: "d3x_create_data lib a = (d, evD)" by (cases "d3x_create_data lib a")
  from assms False D obtain s evS where
    S: "d3x_create_settings lib (paramNames a) (paramValues a) = Inr (s, evS)"
    by (auto simp: run_setup_def split: sum.splits)
  show ?thesis
  proof (cases "d = None \<or> s = None")
    case True
    with assms False D S have "out = Exit (setup_error a (evD @ evS))"
      by (auto simp: run_setup_def split: option.splits)
    with D S null show ?thesis by blast
  next
    case both: False
    then obtain d' s' where d: "d = Some d'" and s: "s = Some s'" by auto
    define evL where "evL = (if logName a \<noteq> [] then
                                [GetStringUTFChars (logName a), OsqpOpenLog (logName a),
                                 ReleaseStringUTFChars (logName a)]
                              else [])"
    have L: "\<forall>e\<in>set evL. setup_event e" by (auto simp: evL_def)
    obtain w evW where W: "d3x_create_workspace lib d' s' = (w, evW)"
      by (cases "d3x_create_workspace lib d' s'")
    show ?thesis
    proof (cases w)
      case None
      with assms False D S d s W have "out = Exit (setup_error a (evD @ evS @ evL @ evW @ [OsqpCloseLog]))"
        by (simp add: run_setup_def evL_def)
      with D S d s W None L work show ?thesis by blast
    next
      case (Some wk)
      with assms False D S d s W have "out = Ready wk (evD @ evS @ evL @ evW)"
        by (simp add: run_setup_def evL_def)
      with D S d s W Some L ready show ?thesis by blast
    qed
  qed
qed

lemma ready_events:
  assumes "run_setup p lib a = Inr (Ready work evs)"
  shows "\<forall>e\<in>set evs. setup_event e"
  using assms
proof (cases rule: run_setup_cases)
  case (ready d evD s evS evL evW work')
  with create_data_events [OF ready(1)] create_settings_events [OF ready(2)]
    create_workspace_events(1) [OF ready(4)]
  show ?thesis by auto
qed auto

lemma exit_events:
  assumes "run_setup p lib a = Inr (Exit r)"
  shows "\<forall>e\<in>set (events r). setup_event e \<or> e = OsqpCleanup \<or> e = OsqpCloseLog"
  using assms
proof (cases rule: run_setup_cases)
  case (width msg)
  then show ?thesis by (simp add: setup_error_def)
next
  case (null d evD s evS)
  with create_data_events [OF null(1)] create_settings_events [OF null(2)]
  show ?thesis by (auto simp: setup_error_def)
next
  case (work d evD s evS evL evW)
  with create_data_events [OF work(1)] create_settings_events [OF work(2)]
    create_workspace_events(2) [OF work(4)]
  show ?thesis by (auto simp: setup_error_def)
qed auto

lemma run_solve_events:
  "\<exists>mid. events (run_solve lib a work evs) = evs @ mid @ teardown
         \<and> (\<forall>e\<in>set mid. \<not> setup_event e \<and> e \<notin> set teardown)"
proof (cases "osqp_solve lib work")
  case (Pair status work')
  show ?thesis
  proof (cases "status = 0")
    case True
    with Pair show ?thesis
      by (simp add: run_solve_def Let_def teardown_def d3x_free_data_def)
  next
    case False
    with Pair show ?thesis
      by (simp add: run_solve_def Let_def teardown_def d3x_free_data_def)
  qed
qed

lemma example_ready:
  "\<exists>work evs. run_setup lp64 (fixed_lib c v) example_args = Inr (Ready work evs)"
  "\<exists>work evs. run_setup lp64 sample_lib example_args = Inr (Ready work evs)"
  "\<exists>work evs. run_setup lp64 sample_lib infeasible_args = Inr (Ready work evs)"
  "\<exists>work evs. run_setup lp64 (fixed_lib c v) contradictory_args = Inr (Ready work evs)"
  "\<exists>work evs. run_setup lp64 (fixed_lib c v) infeasible_args = Inr (Ready work evs)"
  by (simp_all add: run_defs example_defs)



lemma setup_event_not_teardown:
  "setup_event e \<Longrightarrow> e \<notin> set teardown"
  by (cases e) (auto simp: teardown_def d3x_free_data_def)

lemma filter_setup_events:
  assumes "\<forall>e\<in>set evs. setup_event e"
  shows "filter (\<lambda>e. e \<in> set teardown) evs = []"
  using assms by (auto simp: filter_empty_conv dest: setup_event_not_teardown)

lemma filter_teardown: "filter (\<lambda>e. e \<in> set teardown) teardown = teardown"
  by (rule filter_True) simp

lemma filter_workspace_events:
  assumes "d3x_create_workspace lib d s = (None, evW)"
  shows "filter (\<lambda>e. e \<in> set teardown) evW \<in> {[], [OsqpCleanup]}"
  using assms
  by (auto simp: d3x_create_workspace_def teardown_def d3x_free_data_def
      split: prod.splits option.splits if_splits)

lemma teardown_events:
  assumes "Java_com_d3x_osqp_OsqpModel_run p lib a = Inr r"
  shows "filter (\<lambda>e. e \<in> set teardown) (events r)
           \<in> {[], [OsqpCloseLog], [OsqpCleanup, OsqpCloseLog], teardown}"
proof (cases "run_setup p lib a")
  case (Inl f)
  with assms show ?thesis by (simp add: Java_com_d3x_osqp_OsqpModel_run_def)
next
  case (Inr out)
  have cl: "OsqpCloseLog \<in> set teardown" by (simp add: teardown_def)
  from Inr show ?thesis
  proof (cases rule: run_setup_cases)
    case (width msg)
    with Inr assms have "events r = [Stderr msg]"
      by (auto simp: Java_com_d3x_osqp_OsqpModel_run_def setup_error_def)
    then show ?thesis by (simp add: teardown_def d3x_free_data_def)
  next
    case (null d evD s evS)
    with Inr assms have ev: "events r = evD @ evS"
      by (auto simp: Java_com_d3x_osqp_OsqpModel_run_def setup_error_def)
    from create_data_events [OF null(1)] create_settings_events [OF null(2)]
    have "\<forall>e\<in>set (evD @ evS). setup_event e" by auto
    from filter_setup_events [OF this] ev show ?thesis by simp
  next
    case (work d evD s evS evL evW)
    with Inr assms have ev: "events r = (evD @ evS @ evL) @ evW @ [OsqpCloseLog]"
      by (auto simp: Java_com_d3x_osqp_OsqpModel_run_def setup_error_def)
    from create_data_events [OF work(1)] create_settings_events [OF work(2)] work(3)
    have "\<forall>e\<in>set (evD @ evS @ evL). setup_event e" by auto
    from filter_setup_events [OF this] filter_workspace_events [OF work(4)] cl
    show ?thesis unfolding ev filter_append by auto
  next
    case (ready d evD s evS evL evW work)
    with Inr have rs: "run_setup p lib a = Inr (Ready work (evD @ evS @ evL @ evW))" by simp
    from run_ready [OF rs] assms
    have r: "r = run_solve lib a work (evD @ evS @ evL @ evW)" by simp
    from run_solve_events [of lib a work "evD @ evS @ evL @ evW"] obtain mid where
      ev: "events r = (evD @ evS @ evL @ evW) @ mid @ teardown"
      and mid: "\<forall>e\<in>set mid. \<not> setup_event e \<and> e \<notin> set teardown"
      unfolding r by blast
    from mid have m: "filter (\<lambda>e. e \<in> set teardown) mid = []"
      by (auto simp: filter_empty_conv)
    from filter_setup_events [OF ready_events [OF rs]] m filter_teardown
    show ?thesis unfolding ev filter_append by simp
  qed
qed

subsection \<open>Claims about the settings\<close>



text \<open>
  \<^bold>\<open>Claim C8.\<close> A name outside the nine names of the \<open>strcmp\<close> chain makes
  \<open>d3x_assign_setting\<close> print the diagnostic to \<open>stderr\<close> and return the settings
  unchanged; \<open>d3x_create_settings\<close> goes on with the next entry, so its result (the
  record, or its failure) is the one it gives without the unknown entry, and the
  diagnostic is among its events whenever it returns a record.
\<close>

theorem unknown_name_ignored:
  assumes "name \<notin> {''RHO'', ''SIGMA'', ''ALPHA'', ''POLISH'', ''MAX_ITER'', ''EPS_ABS'',
                    ''EPS_REL'', ''EPS_PRIM_INF'', ''EPS_DUAL_INF''}"
    and "length ns1 = length vs1"
  shows "d3x_assign_setting name v s =
           Inr (s, [GetStringUTFChars name, Stderr (unknown_setting_message name),
                    ReleaseStringUTFChars name])
       \<and> map_sum id fst (d3x_create_settings lib (ns1 @ name # ns2) (vs1 @ v # vs2)) =
           map_sum id fst (d3x_create_settings lib (ns1 @ ns2) (vs1 @ vs2))
       \<and> (\<forall>s' evs. d3x_create_settings lib (ns1 @ name # ns2) (vs1 @ v # vs2) = Inr (Some s', evs)
            \<longrightarrow> Stderr (unknown_setting_message name) \<in> set evs)"
proof (intro conjI allI impI)
  show "d3x_assign_setting name v s =
          Inr (s, [GetStringUTFChars name, Stderr (unknown_setting_message name),
                   ReleaseStringUTFChars name])"
    by (rule assign_unknown [OF assms(1)])
next
  let ?s0 = "(osqp_set_default_settings lib)\<lparr>polish := 1\<rparr>"
  have "map_sum id fst (settings_fold (ns1 @ name # ns2) (vs1 @ v # vs2) ?s0) =
        map_sum id fst (settings_fold (ns1 @ ns2) (vs1 @ vs2) ?s0)"
    by (rule settings_fold_skip [OF assms])
  then show "map_sum id fst (d3x_create_settings lib (ns1 @ name # ns2) (vs1 @ v # vs2)) =
             map_sum id fst (d3x_create_settings lib (ns1 @ ns2) (vs1 @ vs2))"
    by (auto simp: d3x_create_settings_def settings_loop_fold split: sum.splits)
next
  fix s' evs
  assume c: "d3x_create_settings lib (ns1 @ name # ns2) (vs1 @ v # vs2) = Inr (Some s', evs)"
  then obtain ev where
    l: "settings_loop 0 (ns1 @ name # ns2) (vs1 @ v # vs2)
          ((osqp_set_default_settings lib)\<lparr>polish := 1\<rparr>) = Inr (s', ev)"
    and evs: "evs = [Alloc SettingsStruct, GetArrayElements ParamValues] @ ev
               @ [ReleaseArrayElements ParamValues]"
    by (rule create_settings_Some)
  from l have "Stderr (unknown_setting_message name) \<in> set ev"
    using settings_fold_diag [OF assms] by (simp add: settings_loop_fold)
  with evs show "Stderr (unknown_setting_message name) \<in> set evs" by simp
qed

text \<open>
  The name \<open>FOO\<close> between \<open>RHO\<close> and \<open>EPS_ABS\<close>: both known settings are assigned.
\<close>

theorem unknown_name_ignored_witness:
  "d3x_assign_setting ''FOO'' 3 osqp_defaults =
     Inr (osqp_defaults, [GetStringUTFChars ''FOO'', Stderr (unknown_setting_message ''FOO''),
                          ReleaseStringUTFChars ''FOO''])
   \<and> map_sum id fst (d3x_create_settings sample_lib [''RHO'', ''FOO'', ''EPS_ABS''] [1 / 2, 3, 1 / 10000])
       = Inr (Some (osqp_defaults\<lparr>polish := 1, rho := 1 / 2, eps_abs := 1 / 10000\<rparr>))
   \<and> unknown_setting_message ''FOO'' = ''Unknown setting parameter: [FOO].'' @ [CHR 0x0A]"
proof -
  have u: "''FOO'' \<notin> {''RHO'', ''SIGMA'', ''ALPHA'', ''POLISH'', ''MAX_ITER'', ''EPS_ABS'',
                    ''EPS_REL'', ''EPS_PRIM_INF'', ''EPS_DUAL_INF''}" by simp
  have len: "length [''RHO''] = length [1 / 2 :: jdouble]" by simp
  have r: "map_sum id fst (d3x_create_settings sample_lib [''RHO'', ''EPS_ABS''] [1 / 2, 1 / 10000])
             = Inr (Some (osqp_defaults\<lparr>polish := 1, rho := 1 / 2, eps_abs := 1 / 10000\<rparr>))"
    by (simp add: d3x_create_settings_def sample_lib_def settings_loop_fold assign_known
        osqp_defaults_def)
  from unknown_name_ignored [OF u len, of 3 osqp_defaults sample_lib "[''EPS_ABS'']" "[1 / 10000]"] r
  show ?thesis by (simp add: unknown_setting_message_def newline_def)
qed

text \<open>
  Claim C10 as stated fails for a \<open>POLISH\<close> value whose rounding is no \<open>int\<close>: for
  \<open>POLISH = 1e10\<close> the resolved \<open>polish\<close> is \<open>INT_MIN\<close>, not \<open>round(1e10)\<close>.
\<close>

theorem polish_override_counterexample:
  "map_sum id (map_option polish \<circ> fst)
     (d3x_create_settings sample_lib [''POLISH''] [10000000000])
     = Inr (Some (- 2147483648))
   \<and> c_round 10000000000 = 10000000000"
  by (simp add: d3x_create_settings_def sample_lib_def settings_loop_fold assign_known
      osqp_defaults_def d3x_to_int_def INT_MIN_def c_round_def in_jint_range_def)

text \<open>
  \<^bold>\<open>Claim C10\<close>, as amended. \<open>settings->polish = 1\<close> is assigned before the loop over the
  caller's settings. For every input on which the \<open>c_malloc\<close> of \<open>d3x_create_settings\<close>
  succeeds and which has a value for every name, the function returns a record; when
  \<open>POLISH\<close> occurs among the names, its \<open>polish\<close> is \<open>round\<close> of the value at the last
  occurrence whenever that rounded value lies in the range of \<open>int\<close>, and \<open>INT_MIN\<close>
  otherwise; when \<open>POLISH\<close> does not occur, \<open>polish\<close> is 1.
\<close>

theorem polish_override:
  assumes "c_malloc_settings lib" and "length names \<le> length vals"
  shows "\<exists>s evs. d3x_create_settings lib names vals = Inr (Some s, evs)
       \<and> (\<forall>k. k < length names \<and> names ! k = ''POLISH''
                \<and> (\<forall>j. k < j \<and> j < length names \<longrightarrow> names ! j \<noteq> ''POLISH'')
              \<longrightarrow> polish s = (if in_jint_range (c_round (vals ! k)) then c_round (vals ! k)
                              else INT_MIN))
       \<and> (''POLISH'' \<notin> set names \<longrightarrow> polish s = 1)"
proof -
  from create_settings_total [OF assms] obtain s evs where
    c: "d3x_create_settings lib names vals = Inr (Some s, evs)" by blast
  have 1: "polish s = (if in_jint_range (c_round (vals ! k)) then c_round (vals ! k)
                       else INT_MIN)"
    if k: "k < length names \<and> names ! k = ''POLISH''
           \<and> (\<forall>j. k < j \<and> j < length names \<longrightarrow> names ! j \<noteq> ''POLISH'')" for k
  proof -
    have "field_of ''POLISH'' s \<noteq> None" by (simp add: field_of_literal)
    from create_settings_last [OF c _ _ this, of k] k
    show ?thesis by (simp add: field_of_literal stored_literal d3x_to_int_def)
  qed
  have 2: "polish s = 1" if "''POLISH'' \<notin> set names"
    using create_settings_untouched [OF c that] by (simp add: field_of_literal)
  from c 1 2 show ?thesis by (intro exI [of _ s] exI [of _ evs]) simp
qed

text \<open>
  A caller who disables polishing: \<open>POLISH = 0.4\<close> is rounded to 0.
\<close>

theorem polish_override_witness:
  "case d3x_create_settings sample_lib [''POLISH''] [2 / 5] of
     Inl f \<Rightarrow> False
   | Inr (None, evs) \<Rightarrow> False
   | Inr (Some s, evs) \<Rightarrow> polish s = 0"
proof -
  have m: "c_malloc_settings sample_lib" by (simp add: sample_lib_def)
  have len: "length [''POLISH''] \<le> length [2 / 5 :: jdouble]" by simp
  have k: "0 < length [''POLISH''] \<and> [''POLISH''] ! 0 = ''POLISH''
        \<and> (\<forall>j. 0 < j \<and> j < length [''POLISH''] \<longrightarrow> [''POLISH''] ! j \<noteq> ''POLISH'')"
    by auto
  from polish_override [OF m len] obtain s evs where
    e: "d3x_create_settings sample_lib [''POLISH''] [2 / 5] = Inr (Some s, evs)"
    and p: "\<forall>k. k < length [''POLISH''] \<and> [''POLISH''] ! k = ''POLISH''
                \<and> (\<forall>j. k < j \<and> j < length [''POLISH''] \<longrightarrow> [''POLISH''] ! j \<noteq> ''POLISH'')
              \<longrightarrow> polish s = (if in_jint_range (c_round ([2 / 5] ! k)) then c_round ([2 / 5] ! k)
                              else INT_MIN)"
    by blast
  from p k have "polish s = (if in_jint_range (c_round ([2 / 5] ! 0)) then c_round ([2 / 5] ! 0)
                             else INT_MIN)" by blast
  then have "polish s = 0" by (simp add: c_round_def in_jint_range_def)
  then show ?thesis by (simp only: e sum.case prod.case option.case)
qed

subsection \<open>Claims about the native method\<close>

text \<open>
  \<^bold>\<open>Claim C5.\<close> When \<open>sizeof(c_int) \<noteq> sizeof(long)\<close> or
  \<open>sizeof(c_float) \<noteq> sizeof(double)\<close>, the method returns \<open>-1\<close>, the output arrays are as
  the caller passed them, and the only event of the call is one message on \<open>stderr\<close>:
  nothing is allocated or acquired and no function of the solver is called. The witness
  is a platform with a 4-byte \<open>c_int\<close> and an 8-byte \<open>long\<close>.
\<close>

theorem width_mismatch_aborts:
  assumes "sizeof_c_int p \<noteq> sizeof_long p \<or> sizeof_c_float p \<noteq> sizeof_double p"
  shows "\<exists>msg. Java_com_d3x_osqp_OsqpModel_run p lib a =
           Inr \<lparr>ret = - 1, primalOut = optPrimal a, dualOut = optDual a,
                events = [Stderr msg]\<rparr>"
  using assms
  by (auto simp: Java_com_d3x_osqp_OsqpModel_run_def run_setup_def setup_error_def
      SETUP_ERROR_def to_jint_def)

theorem width_mismatch_aborts_witness:
  "Java_com_d3x_osqp_OsqpModel_run (lp64\<lparr>sizeof_c_int := 4\<rparr>) sample_lib example_args =
     Inr \<lparr>ret = - 1, primalOut = [7], dualOut = [8],
          events = [Stderr (''OSQP must be compiled with DLONG defined.'' @ newline)]\<rparr>"
proof -
  have "sizeof_c_int (lp64\<lparr>sizeof_c_int := 4\<rparr>) \<noteq> sizeof_long (lp64\<lparr>sizeof_c_int := 4\<rparr>)
        \<or> sizeof_c_float (lp64\<lparr>sizeof_c_int := 4\<rparr>) \<noteq> sizeof_double (lp64\<lparr>sizeof_c_int := 4\<rparr>)"
    by (simp add: lp64_def)
  from width_mismatch_aborts [OF this, of sample_lib example_args]
  obtain msg where
    "Java_com_d3x_osqp_OsqpModel_run (lp64\<lparr>sizeof_c_int := 4\<rparr>) sample_lib example_args =
       Inr \<lparr>ret = - 1, primalOut = optPrimal example_args, dualOut = optDual example_args,
            events = [Stderr msg]\<rparr>" ..
  moreover have
    "events (projr (Java_com_d3x_osqp_OsqpModel_run (lp64\<lparr>sizeof_c_int := 4\<rparr>) sample_lib example_args))
       = [Stderr (''OSQP must be compiled with DLONG defined.'' @ newline)]"
    by (simp add: Java_com_d3x_osqp_OsqpModel_run_def run_setup_def setup_error_def lp64_def)
  ultimately show ?thesis by (simp add: example_args_def)
qed

text \<open>
  \<^bold>\<open>Claim C1\<close> asks that whatever a call acquires is released before it returns, on
  every exit path. The two early returns of the method (\<open>if (!data || !settings)\<close> and
  \<open>if (!workspace)\<close>) skip the cleanup that ends the method. Evaluated on the problem with
  bounds \<open>5\<close> and \<open>1\<close>: when \<open>osqp_setup\<close> stores no workspace the method returns \<open>-1\<close>
  and leaves behind the \<open>OSQPData\<close> block, the three borrowed arrays, the two matrices
  and the \<open>OSQPSettings\<close> block; when the \<open>c_malloc\<close> of the data fails it leaves the
  settings block behind; when the \<open>c_malloc\<close> of the settings fails it leaves the data
  behind. The path through \<open>osqp_solve\<close> leaves nothing behind.
\<close>

theorem setup_failure_leaks:
  "map_sum id ret (Java_com_d3x_osqp_OsqpModel_run lp64 rejecting_lib infeasible_args)
     = Inr (- 1)
   \<and> map_sum id (leaked \<circ> events)
        (Java_com_d3x_osqp_OsqpModel_run lp64 rejecting_lib infeasible_args)
       = Inr [Block DataStruct, Elements LinObjCoeff, Elements LinConLower,
              Elements LinConUpper, Block (CompCol MatA), Block (CompCol MatP),
              Block SettingsStruct]
   \<and> map_sum id (leaked \<circ> events)
        (Java_com_d3x_osqp_OsqpModel_run lp64 (sample_lib\<lparr>c_malloc_data := False\<rparr>)
           infeasible_args)
       = Inr [Block SettingsStruct]
   \<and> map_sum id (leaked \<circ> events)
        (Java_com_d3x_osqp_OsqpModel_run lp64 (sample_lib\<lparr>c_malloc_settings := False\<rparr>)
           infeasible_args)
       = Inr [Block DataStruct, Elements LinObjCoeff, Elements LinConLower,
              Elements LinConUpper, Block (CompCol MatA), Block (CompCol MatP)]
   \<and> map_sum id (leaked \<circ> events)
        (Java_com_d3x_osqp_OsqpModel_run lp64 sample_lib infeasible_args)
       = Inr []"
  by (simp add: run_defs example_defs leaked_def)




text \<open>
  \<^bold>\<open>Claim C3\<close>, as amended. When the call reaches the solve step and \<open>osqp_solve\<close>
  returns a status other than 0, the output arrays are left as the caller passed them and
  the method returns that status converted to \<open>jint\<close> by \<open>return (jint) status\<close>: the status
  itself whenever it lies in the range of \<open>jint\<close>.
\<close>

theorem solve_failure_passthrough:
  assumes "run_setup p lib a = Inr (Ready work evs)"
    and "osqp_solve lib work = (status, work')" and "status \<noteq> 0"
  shows "\<exists>r. Java_com_d3x_osqp_OsqpModel_run p lib a = Inr r
           \<and> primalOut r = optPrimal a \<and> dualOut r = optDual a
           \<and> ret r = to_jint status \<and> (in_jint_range status \<longrightarrow> ret r = status)"
  using run_ready [OF assms(1)] run_solve_nonzero [OF assms(2,3)]
  by (simp add: to_jint_id)

text \<open>
  \<open>osqp_solve\<close> returns 3: the method returns 3 and the arrays still hold 7 and 8.
\<close>

theorem solve_failure_passthrough_witness:
  "map_sum id ret (Java_com_d3x_osqp_OsqpModel_run lp64 (fixed_lib 3 0) example_args) = Inr 3
   \<and> map_sum id primalOut (Java_com_d3x_osqp_OsqpModel_run lp64 (fixed_lib 3 0) example_args)
       = Inr [7]
   \<and> map_sum id dualOut (Java_com_d3x_osqp_OsqpModel_run lp64 (fixed_lib 3 0) example_args)
       = Inr [8]"
proof -
  from example_ready(1) [of 3 0] obtain work where
    "\<exists>evs. run_setup lp64 (fixed_lib 3 0) example_args = Inr (Ready work evs)" ..
  then obtain evs where
    h1: "run_setup lp64 (fixed_lib 3 0) example_args = Inr (Ready work evs)" ..
  have h2: "osqp_solve (fixed_lib 3 0) work = (3, snd (fixed_solve 3 0 work))"
    by (simp add: fixed_lib_def fixed_solve_def)
  have h3: "(3::int) \<noteq> 0" by simp
  from solve_failure_passthrough [OF h1 h2 h3]
  show ?thesis by (auto simp: example_args_def to_jint_def)
qed

text \<open>
  Claim C3 as stated fails where the status does not fit into a \<open>jint\<close>: on the LP64
  platform \<open>c_int\<close> has 8 bytes, and when \<open>osqp_solve\<close> returns \<open>2 ^ 32\<close>, which is not 0,
  the method returns 0.
\<close>

theorem solve_failure_passthrough_counterexample:
  "in_c_int_range lp64 4294967296
   \<and> map_sum id (solve_codes \<circ> events)
        (Java_com_d3x_osqp_OsqpModel_run lp64 (fixed_lib 4294967296 0) example_args)
       = Inr [4294967296]
   \<and> map_sum id ret
        (Java_com_d3x_osqp_OsqpModel_run lp64 (fixed_lib 4294967296 0) example_args)
       = Inr 0"
  by (simp add: run_defs example_defs in_c_int_range_def)

text \<open>
  \<^bold>\<open>Claim C4\<close>, as amended. When the call reaches the solve step and \<open>osqp_solve\<close>
  returns 0, the first \<open>numVar\<close> entries of \<open>solution->x\<close> and the first \<open>numDual\<close> entries
  of \<open>solution->y\<close> are copied to the front of the output arrays (which must have room for
  them, \<open>numVar\<close> and \<open>numDual\<close> being valid \<open>jsize\<close> lengths), and the method returns
  \<open>info->status_val\<close> converted to \<open>jint\<close>: \<open>info->status_val\<close> itself whenever it lies in
  the range of \<open>jint\<close>.
\<close>

theorem solution_copied:
  assumes "run_setup p lib a = Inr (Ready work evs)"
    and "osqp_solve lib work = (0, work')"
    and "0 \<le> numVar a" and "numVar a \<le> int (length (optPrimal a))"
    and "in_jint_range (numVar a)"
    and "0 \<le> numDual a" and "numDual a \<le> int (length (optDual a))"
    and "in_jint_range (numDual a)"
  shows "\<exists>r. Java_com_d3x_osqp_OsqpModel_run p lib a = Inr r
           \<and> primalOut r = map (solution_x work') [0..<nat (numVar a)]
                              @ drop (nat (numVar a)) (optPrimal a)
           \<and> dualOut r = map (solution_y work') [0..<nat (numDual a)]
                            @ drop (nat (numDual a)) (optDual a)
           \<and> ret r = to_jint (info_status_val work')
           \<and> (in_jint_range (info_status_val work') \<longrightarrow> ret r = info_status_val work')"
  using run_ready [OF assms(1)] run_solve_zero(1,2,3) [OF assms(2), of a evs]
    region_ok [OF assms(3,4,5)] region_ok [OF assms(6,7,8)]
  by (simp add: to_jint_id)

text \<open>
  \<open>osqp_solve\<close> returns 0 with \<open>x = (1)\<close>, \<open>y = (-1)\<close> and \<open>status_val = 1\<close>.
\<close>

theorem solution_copied_witness:
  "map_sum id primalOut (Java_com_d3x_osqp_OsqpModel_run lp64 (fixed_lib 0 1) example_args)
     = Inr [1]
   \<and> map_sum id dualOut (Java_com_d3x_osqp_OsqpModel_run lp64 (fixed_lib 0 1) example_args)
       = Inr [- 1]
   \<and> map_sum id ret (Java_com_d3x_osqp_OsqpModel_run lp64 (fixed_lib 0 1) example_args)
       = Inr 1"
proof -
  from example_ready(1) [of 0 1] obtain work where
    "\<exists>evs. run_setup lp64 (fixed_lib 0 1) example_args = Inr (Ready work evs)" ..
  then obtain evs where
    h1: "run_setup lp64 (fixed_lib 0 1) example_args = Inr (Ready work evs)" ..
  have h2: "osqp_solve (fixed_lib 0 1) work = (0, snd (fixed_solve 0 1 work))"
    by (simp add: fixed_lib_def fixed_solve_def)
  have h3: "0 \<le> numVar example_args" "numVar example_args \<le> int (length (optPrimal example_args))"
    "in_jint_range (numVar example_args)"
    "0 \<le> numDual example_args" "numDual example_args \<le> int (length (optDual example_args))"
    "in_jint_range (numDual example_args)"
    by (simp_all add: example_args_def in_jint_range_def)
  from solution_copied [OF h1 h2 h3]
  show ?thesis by (auto simp: example_args_def fixed_solve_def to_jint_def)
qed

text \<open>
  Claim C4 as stated fails where \<open>info->status_val\<close> does not fit into a \<open>jint\<close>: when
  \<open>osqp_solve\<close> returns 0 and leaves \<open>2 ^ 32 + 1\<close> in \<open>info->status_val\<close>, the method
  returns 1.
\<close>

theorem solution_copied_counterexample:
  "in_c_int_range lp64 4294967297
   \<and> map_sum id (solve_codes \<circ> events)
        (Java_com_d3x_osqp_OsqpModel_run lp64 (fixed_lib 0 4294967297) example_args)
       = Inr [0]
   \<and> map_sum id ret
        (Java_com_d3x_osqp_OsqpModel_run lp64 (fixed_lib 0 4294967297) example_args)
       = Inr 1"
  by (simp add: run_defs example_defs in_c_int_range_def)

text \<open>
  The cleanup that ends the method. Where \<open>d3x_create_workspace\<close> has returned a
  workspace, the trace ends with \<open>osqp_cleanup\<close>, \<open>c_free(settings)\<close>, the six calls of
  \<open>d3x_free_data\<close> and \<open>osqp_close_log\<close>, in this order, and none of these calls occurs
  earlier; on every path the calls of this list that the trace contains come in the
  order of the list, and no \<open>osqp_cleanup\<close> comes after a call that frees the settings
  or a part of the problem data.
\<close>

lemma teardown_when_ready:
  assumes "Java_com_d3x_osqp_OsqpModel_run p lib a = Inr r"
  shows "teardown =
           [OsqpCleanup, Free SettingsStruct, ReleaseArrayElements LinObjCoeff,
            ReleaseArrayElements LinConLower, ReleaseArrayElements LinConUpper,
            Free (CompCol MatA), Free (CompCol MatP), Free DataStruct, OsqpCloseLog]
       \<and> (\<forall>work evs. run_setup p lib a = Inr (Ready work evs) \<longrightarrow>
            (\<exists>pre. events r = pre @ teardown \<and> (\<forall>e\<in>set pre. e \<notin> set teardown)))
       \<and> filter (\<lambda>e. e \<in> set teardown) (events r)
            \<in> {[], [OsqpCloseLog], [OsqpCleanup, OsqpCloseLog], teardown}
       \<and> (\<forall>pre post. events r = pre @ OsqpCleanup # post \<longrightarrow>
            (\<forall>e\<in>set pre. e \<notin> {Free SettingsStruct, ReleaseArrayElements LinObjCoeff,
                                ReleaseArrayElements LinConLower, ReleaseArrayElements LinConUpper,
                                Free (CompCol MatA), Free (CompCol MatP), Free DataStruct}))"
proof -
  let ?frees = "{Free SettingsStruct, ReleaseArrayElements LinObjCoeff,
                 ReleaseArrayElements LinConLower, ReleaseArrayElements LinConUpper,
                 Free (CompCol MatA), Free (CompCol MatP), Free DataStruct}"
  have td: "teardown = [OsqpCleanup, Free SettingsStruct, ReleaseArrayElements LinObjCoeff,
                        ReleaseArrayElements LinConLower, ReleaseArrayElements LinConUpper,
                        Free (CompCol MatA), Free (CompCol MatP), Free DataStruct, OsqpCloseLog]"
    by (simp add: teardown_def d3x_free_data_def)
  have ready: "\<exists>pre. events r = pre @ teardown \<and> (\<forall>e\<in>set pre. e \<notin> set teardown)"
    if "run_setup p lib a = Inr (Ready work evs)" for work evs
  proof -
    from run_ready [OF that] assms have r: "r = run_solve lib a work evs" by simp
    from run_solve_events [of lib a work evs] obtain mid where
      ev: "events r = evs @ mid @ teardown"
      and mid: "\<forall>e\<in>set mid. \<not> setup_event e \<and> e \<notin> set teardown"
      unfolding r by blast
    from ready_events [OF that] have "\<forall>e\<in>set evs. e \<notin> set teardown"
      by (blast dest: setup_event_not_teardown)
    with mid have "\<forall>e\<in>set (evs @ mid). e \<notin> set teardown" by auto
    with ev show ?thesis by (intro exI [of _ "evs @ mid"]) simp
  qed
  have order: "\<forall>e\<in>set pre. e \<notin> ?frees" if dec: "events r = pre @ OsqpCleanup # post"
    for pre post
  proof (cases "run_setup p lib a")
    case (Inl f)
    with assms show ?thesis by (simp add: Java_com_d3x_osqp_OsqpModel_run_def)
  next
    case (Inr out)
    show ?thesis
    proof (cases out)
      case (Exit r')
      with Inr assms have "r' = r" by (simp add: Java_com_d3x_osqp_OsqpModel_run_def)
      with exit_events [of p lib a r] Inr Exit
      have all: "\<forall>e\<in>set (events r). setup_event e \<or> e = OsqpCleanup \<or> e = OsqpCloseLog"
        by simp
      show ?thesis
      proof
        fix e assume "e \<in> set pre"
        with dec have "e \<in> set (events r)" by simp
        with all have "setup_event e \<or> e = OsqpCleanup \<or> e = OsqpCloseLog" by blast
        then show "e \<notin> ?frees" by auto
      qed
    next
      case (Ready work evs)
      with Inr have rs: "run_setup p lib a = Inr (Ready work evs)" by simp
      from ready [OF rs] obtain pre' where
        ev: "events r = pre' @ teardown" and pre': "\<forall>e\<in>set pre'. e \<notin> set teardown" by blast
      let ?rest = "[Free SettingsStruct, ReleaseArrayElements LinObjCoeff,
                    ReleaseArrayElements LinConLower, ReleaseArrayElements LinConUpper,
                    Free (CompCol MatA), Free (CompCol MatP), Free DataStruct, OsqpCloseLog]"
      from ev td have ev': "events r = pre' @ OsqpCleanup # ?rest" by simp
      from pre' have n1: "OsqpCleanup \<notin> set pre'" by (auto simp: td)
      have n2: "OsqpCleanup \<notin> set ?rest" by simp
      from dec ev' have "pre' @ OsqpCleanup # ?rest = pre @ OsqpCleanup # post" by simp
      with n1 n2 have "pre = pre'" by (simp add: append_Cons_eq_iff)
      with pre' show ?thesis by (auto simp: td)
    qed
  qed
  show ?thesis
  proof (intro conjI allI impI)
    show "teardown =
            [OsqpCleanup, Free SettingsStruct, ReleaseArrayElements LinObjCoeff,
             ReleaseArrayElements LinConLower, ReleaseArrayElements LinConUpper,
             Free (CompCol MatA), Free (CompCol MatP), Free DataStruct, OsqpCloseLog]"
      by (rule td)
  next
    fix work evs assume "run_setup p lib a = Inr (Ready work evs)"
    then show "\<exists>pre. events r = pre @ teardown \<and> (\<forall>e\<in>set pre. e \<notin> set teardown)"
      by (rule ready)
  next
    show "filter (\<lambda>e. e \<in> set teardown) (events r)
            \<in> {[], [OsqpCloseLog], [OsqpCleanup, OsqpCloseLog], teardown}"
      by (rule teardown_events [OF assms])
  next
    fix pre post assume "events r = pre @ OsqpCleanup # post"
    then show "\<forall>e\<in>set pre. e \<notin> ?frees" by (rule order)
  qed
qed

text \<open>
  \<^bold>\<open>Claim C6\<close> asks for the four steps of the teardown, in their order, on every path
  on which the solver workspace was created. \<open>osqp_setup\<close> can store a workspace and
  return a status other than 0; \<open>d3x_create_workspace\<close> then releases the workspace with
  \<open>osqp_cleanup\<close> and returns \<open>OSQP_NULL\<close>, and the method closes the log and returns
  \<open>-1\<close> from \<open>if (!workspace)\<close>: the settings are never freed and the problem data
  never released. Evaluated on the example problem: the call ends with \<open>osqp_setup\<close>,
  the message, \<open>osqp_cleanup\<close> and \<open>osqp_close_log\<close>, the only teardown calls of its
  trace, and leaves seven resources behind; with a setup that succeeds, the same
  arguments give all nine calls.
\<close>

theorem teardown_cut_short:
  "map_sum id ret (Java_com_d3x_osqp_OsqpModel_run lp64 failed_init_lib example_args)
     = Inr (- 1)
   \<and> map_sum id (drop 30 \<circ> events)
        (Java_com_d3x_osqp_OsqpModel_run lp64 failed_init_lib example_args)
       = Inr [OsqpSetup True 4, Stderr (''Problm setup failed.'' @ newline),
              OsqpCleanup, OsqpCloseLog]
   \<and> map_sum id (filter (\<lambda>e. e \<in> set teardown) \<circ> events)
        (Java_com_d3x_osqp_OsqpModel_run lp64 failed_init_lib example_args)
       = Inr [OsqpCleanup, OsqpCloseLog]
   \<and> map_sum id (leaked \<circ> events)
        (Java_com_d3x_osqp_OsqpModel_run lp64 failed_init_lib example_args)
       = Inr [Block DataStruct, Elements LinObjCoeff, Elements LinConLower,
              Elements LinConUpper, Block (CompCol MatA), Block (CompCol MatP),
              Block SettingsStruct]
   \<and> map_sum id (filter (\<lambda>e. e \<in> set teardown) \<circ> events)
        (Java_com_d3x_osqp_OsqpModel_run lp64 sample_lib example_args)
       = Inr [OsqpCleanup, Free SettingsStruct, ReleaseArrayElements LinObjCoeff,
              ReleaseArrayElements LinConLower, ReleaseArrayElements LinConUpper,
              Free (CompCol MatA), Free (CompCol MatP), Free DataStruct, OsqpCloseLog]"
  by (simp add: run_defs example_defs leaked_def)

text \<open>
  \<^bold>\<open>Claim C9\<close>, as amended. A call that reaches the solve step returns the solver's
  code (the status of \<open>osqp_solve\<close>, or \<open>info->status_val\<close> when that status is 0)
  converted from \<open>c_int\<close> to \<open>jint\<close>: unmodified whenever the code lies in the range of
  \<open>jint\<close>, reduced modulo \<open>2 ^ 32\<close> into that range otherwise.
\<close>

theorem status_conversion:
  assumes "run_setup p lib a = Inr (Ready work evs)"
    and "osqp_solve lib work = (status, work')"
    and "code = (if status = 0 then info_status_val work' else status)"
  shows "\<exists>r. Java_com_d3x_osqp_OsqpModel_run p lib a = Inr r
           \<and> ret r = to_jint code \<and> (in_jint_range code \<longrightarrow> ret r = code)"
proof (cases "status = 0")
  case True
  with run_ready [OF assms(1)] run_solve_zero(1) [of lib work work' a evs] assms(2,3)
  show ?thesis by (simp add: to_jint_id)
next
  case False
  with run_ready [OF assms(1)] run_solve_nonzero [OF assms(2) False, of a evs] assms(3)
  show ?thesis by (simp add: to_jint_id)
qed

text \<open>
  \<open>osqp_solve\<close> returns 0 with \<open>status_val = -3\<close>: the method returns \<open>-3\<close>.
\<close>

theorem status_conversion_witness:
  "map_sum id ret (Java_com_d3x_osqp_OsqpModel_run lp64 (fixed_lib 0 (- 3)) example_args)
     = Inr (- 3)"
proof -
  from example_ready(1) [of 0 "- 3"] obtain work where
    "\<exists>evs. run_setup lp64 (fixed_lib 0 (- 3)) example_args = Inr (Ready work evs)" ..
  then obtain evs where
    h1: "run_setup lp64 (fixed_lib 0 (- 3)) example_args = Inr (Ready work evs)" ..
  have h2: "osqp_solve (fixed_lib 0 (- 3)) work = (0, snd (fixed_solve 0 (- 3) work))"
    by (simp add: fixed_lib_def fixed_solve_def)
  have h3: "- 3 = (if (0::int) = 0 then info_status_val (snd (fixed_solve 0 (- 3) work)) else 0)"
    by (simp add: fixed_solve_def)
  have h4: "in_jint_range (- 3)" by (simp add: in_jint_range_def)
  from status_conversion [OF h1 h2 h3] h4
  show ?thesis by auto
qed

text \<open>
  Claim C9 as stated fails for a code outside the range of \<open>jint\<close>: when \<open>osqp_solve\<close>
  returns \<open>2 ^ 31\<close>, a value of the 8-byte \<open>c_int\<close>, the method returns \<open>- 2 ^ 31\<close>.
\<close>

theorem status_conversion_counterexample:
  "in_c_int_range lp64 2147483648
   \<and> map_sum id (solve_codes \<circ> events)
        (Java_com_d3x_osqp_OsqpModel_run lp64 (fixed_lib 2147483648 0) example_args)
       = Inr [2147483648]
   \<and> map_sum id ret
        (Java_com_d3x_osqp_OsqpModel_run lp64 (fixed_lib 2147483648 0) example_args)
       = Inr (- 2147483648)"
  by (simp add: run_defs example_defs in_c_int_range_def)

end
